theory Spec2Isabelle
  imports Complex_Main "HOL-Library.AList" "HOL-Library.Sublist"
begin

section \<open>Data model (frontend/src/types/index.ts)\<close>

text \<open>
  The CarbonChain frontend is a React application. Its pure functions are embedded as HOL
  functions; an event handler becomes a function from the component state (a record of the
  \<open>useState\<close> cells it touches) and the outcomes of the API calls it awaits to the new
  state and the list of effects it issued, in order. A rejected promise is the \<open>Inl\<close>
  branch of a sum. The numbers of the submission form are only compared, and are modelled
  by exact rationals; the numbers of the verified impact are added and halved, and are
  modelled as IEEE 754 doubles.
\<close>

datatype ClaimStatus =
    submitted
  | ai_analysis_pending
  | ai_analysis_in_progress
  | verified
  | ai_verified
  | ai_rejected
  | ai_analyzed
  | authority_reviewed
  | community_reviewed
  | approved
  | rejected
  | minted

datatype ReviewDecision = approve | reject

text \<open>\<open>AIConsistencyResult.verdict\<close>: the three string literals of the declared union type.\<close>

datatype Verdict = strongly_supports | partially_supports | contradicts

text \<open>At run time a verdict is the string itself; the switches below compare strings.\<close>

fun verdict_string :: "Verdict \<Rightarrow> string" where
  "verdict_string strongly_supports = ''strongly_supports''"
| "verdict_string partially_supports = ''partially_supports''"
| "verdict_string contradicts = ''contradicts''"

text \<open>The fields of \<open>Claim\<close> that the modelled code reads.\<close>

record Claim =
  id' :: string
  status :: ClaimStatus

text \<open>An error thrown by an API call: \<open>error.response?.data?.detail\<close> and \<open>error.message\<close>.\<close>

record api_error =
  detail :: "string option"
  message :: "string option"

subsection \<open>JavaScript numbers\<close>

text \<open>
  A JavaScript number is an IEEE 754 double: \<open>NaN\<close>, an infinity, or a finite value
  \<open>m * 2 ^ e\<close> with an integer \<open>m\<close> of magnitude below \<open>2 ^ 53\<close> and
  \<open>- 1074 \<le> e \<le> 971\<close>. A finite value is kept as the rational it denotes. The two
  zeros are one value here: the code below neither divides by a zero nor prints one, and
  \<open>||\<close>, \<open>+\<close> and \<open>/ 2\<close> treat them alike up to the sign of a zero result.
\<close>

datatype number = NaN | NegInf | Finite rat | PosInf

definition min_exponent :: int where
  "min_exponent = - 1074"

definition max_exponent :: int where
  "max_exponent = 971"

abbreviation (input) doubles :: "rat set" where
  "doubles \<equiv> {of_int m * 2 powi e | m e. \<bar>m\<bar> < 2 ^ 53 \<and> min_exponent \<le> e \<and> e \<le> max_exponent}"

text \<open>Rounding to the nearest integer, a tie going to the even one.\<close>

definition round_half_even :: "rat \<Rightarrow> int" where
  "round_half_even y =
     (let f = \<lfloor>y\<rfloor>; d = y - of_int f
      in if d < 1 / 2 then f else if 1 / 2 < d then f + 1 else if even f then f else f + 1)"

text \<open>
  The exponent of the binade of a magnitude \<open>x\<close>: the least \<open>e\<close> from \<open>min_exponent\<close>
  on with \<open>x < 2 ^ (e + 53)\<close>, so that \<open>x / 2 ^ e\<close> is below \<open>2 ^ 53\<close>; the subnormal
  numbers and the first binade share \<open>min_exponent\<close>.
\<close>

fun exponent_from :: "nat \<Rightarrow> int \<Rightarrow> rat \<Rightarrow> int" where
  "exponent_from 0 e x = e"
| "exponent_from (Suc n) e x = (if 2 powi (e + 53) \<le> x then exponent_from n (e + 1) x else e)"

definition exponent :: "rat \<Rightarrow> int" where
  "exponent x = exponent_from (nat (max_exponent - min_exponent)) min_exponent x"

definition round_magnitude :: "rat \<Rightarrow> rat" where
  "round_magnitude x = of_int (round_half_even (x / 2 powi exponent x)) * 2 powi exponent x"

text \<open>
  Round to nearest, ties to even, of an exact result. From \<open>2 ^ 1024 - 2 ^ 970\<close> on, half
  way between the largest double and \<open>2 ^ 1024\<close>, the result is an infinity.
\<close>

definition overflow_threshold :: rat where
  "overflow_threshold = 2 powi 1024 - 2 powi 970"

definition round_to_double :: "rat \<Rightarrow> number" where
  "round_to_double x =
     (if overflow_threshold \<le> x then PosInf
      else if x \<le> - overflow_threshold then NegInf
      else Finite (sgn x * round_magnitude \<bar>x\<bar>))"

text \<open>The rationals that are doubles: those that rounding leaves alone.\<close>

definition is_double :: "rat \<Rightarrow> bool" where
  "is_double x = (round_to_double x = Finite x)"

text \<open>The operand of \<open>||\<close> is taken when it is truthy: not \<open>NaN\<close> and not a zero.\<close>

fun truthy :: "number \<Rightarrow> bool" where
  "truthy NaN = False"
| "truthy (Finite x) = (x \<noteq> 0)"
| "truthy NegInf = True"
| "truthy PosInf = True"

text \<open>\<open>a + b\<close> and \<open>a / 2\<close> on numbers: the exact result, rounded.\<close>

fun js_add :: "number \<Rightarrow> number \<Rightarrow> number" where
  "js_add (Finite a) (Finite b) = round_to_double (a + b)"
| "js_add NaN y = NaN"
| "js_add x NaN = NaN"
| "js_add PosInf NegInf = NaN"
| "js_add NegInf PosInf = NaN"
| "js_add PosInf y = PosInf"
| "js_add x PosInf = PosInf"
| "js_add NegInf y = NegInf"
| "js_add x NegInf = NegInf"

fun js_div_2 :: "number \<Rightarrow> number" where
  "js_div_2 (Finite a) = round_to_double (a / 2)"
| "js_div_2 x = x"

subsection \<open>The public view of a claim\<close>

text \<open>
  \<open>VerificationResult.verified_impact\<close>: the bounds and the optional point estimate. The
  two bounds have the field names of \<open>CarbonImpactEstimate\<close>, declared further down;
  after that declaration they are written \<open>VerifiedImpact.min_tonnes_co2e\<close> and
  \<open>VerifiedImpact.max_tonnes_co2e\<close>.
\<close>

record VerifiedImpact =
  min_tonnes_co2e :: number
  max_tonnes_co2e :: number
  point_estimate_tonnes_co2e :: "number option"

record VerificationResult =
  verified_impact :: "VerifiedImpact option"

text \<open>
  \<open>PublicClaimResponse\<close>: the fields read by the handlers (\<open>status'\<close> is its \<open>status\<close>).
\<close>

record PublicClaimResponse =
  claim :: Claim
  verification :: "VerificationResult option"
  can_mint :: bool
  status' :: ClaimStatus

section \<open>AIVerdictCard.tsx and the verdict badge of ClaimDetail.tsx\<close>

datatype verdict_icon = CheckCircle_green | XCircle_red | AlertTriangle_yellow

definition getVerdictIcon :: "string \<Rightarrow> verdict_icon" where
  "getVerdictIcon v =
     (if v = ''consistent'' then CheckCircle_green
      else if v = ''inconsistent'' then XCircle_red
      else AlertTriangle_yellow)"

definition getVerdictColor :: "string \<Rightarrow> string" where
  "getVerdictColor v =
     (if v = ''consistent'' then ''success''
      else if v = ''inconsistent'' then ''destructive''
      else ''warning'')"

definition getVerdictLabel :: "string \<Rightarrow> string" where
  "getVerdictLabel v =
     (if v = ''consistent'' then ''AI Consistent''
      else if v = ''inconsistent'' then ''AI Inconsistent''
      else ''Uncertain'')"

text \<open>The class chosen for the \<open>AI: ...\<close> badge in the header of the claim-detail page.\<close>

definition ai_verdict_badge_class :: "string \<Rightarrow> string" where
  "ai_verdict_badge_class v =
     (if v = ''consistent'' then ''bg-emerald-100 text-emerald-800''
      else if v = ''inconsistent'' then ''bg-red-100 text-red-800''
      else ''bg-yellow-100 text-yellow-800'')"

section \<open>AuthorityDashboard.tsx: the two review dashboards\<close>

subsection \<open>State of a review page\<close>

text \<open>\<open>ReviewSubmission\<close>: the optional fields are options.\<close>

record ReviewSubmission =
  claim_id :: string
  reviewer_id :: string
  decision :: ReviewDecision
  confidence_score :: "rat option"
  positives :: "string list option"
  concerns :: "string list option"
  notes' :: "string option"

text \<open>
  The \<open>useState\<close> cells of \<open>AuthorityDashboard\<close> and of \<open>CommunityReview\<close> that the
  handlers below read or write (\<open>claimData\<close> exists in \<open>CommunityReview\<close> only, where it
  holds the full data of the selected claim).
\<close>

record review_page =
  claims :: "Claim list"
  selectedClaim :: "Claim option"
  claimData :: "PublicClaimResponse option"
  reviewData :: ReviewSubmission
  loading :: bool
  submitting :: bool

definition authority_blank_review :: ReviewSubmission where
  "authority_blank_review =
     \<lparr>claim_id = [], reviewer_id = ''Authority Reviewer #001'', decision = approve,
      confidence_score = None, positives = Some [[]], concerns = Some [[]],
      notes' = Some []\<rparr>"

definition community_blank_review :: ReviewSubmission where
  "community_blank_review =
     \<lparr>claim_id = [], reviewer_id = ''Community Member'', decision = approve,
      confidence_score = Some (4 / 5), positives = Some [[]], concerns = Some [[]],
      notes' = Some []\<rparr>"

definition authority_initial :: review_page where
  "authority_initial =
     \<lparr>claims = [], selectedClaim = None, claimData = None,
      reviewData = authority_blank_review, loading = True, submitting = False\<rparr>"

definition community_initial :: review_page where
  "community_initial =
     \<lparr>claims = [], selectedClaim = None, claimData = None,
      reviewData = community_blank_review, loading = True, submitting = False\<rparr>"

text \<open>What a handler does to the outside, in order (\<open>console.log\<close> is left out).\<close>

datatype review_effect =
    GetClaims
  | SubmitAuthorityReview ReviewSubmission
  | SubmitCommunityReview ReviewSubmission
  | ConsoleError string
  | Alert string

subsection \<open>Fetching the claims offered for review\<close>

text \<open>
  \<open>fetchClaims\<close> of \<open>AuthorityDashboard\<close>: the argument is the outcome of
  \<open>claimsApi.getClaims()\<close>. On an error the catch block only logs, so \<open>claims\<close> keeps its
  value; \<open>finally\<close> resets \<open>loading\<close>.
\<close>

definition authority_fetchClaims :: "api_error + Claim list \<Rightarrow> review_page \<Rightarrow> review_page" where
  "authority_fetchClaims outcome p =
     (case outcome of
        Inr allClaims \<Rightarrow>
          p\<lparr>claims :=
               filter (\<lambda>c. status c = ai_verified \<or> status c = ai_analyzed \<or> status c = verified)
                 allClaims,
            loading := False\<rparr>
      | Inl err \<Rightarrow> p\<lparr>loading := False\<rparr>)"

text \<open>\<open>fetchClaims\<close> of \<open>CommunityReview\<close>.\<close>

definition community_fetchClaims :: "api_error + Claim list \<Rightarrow> review_page \<Rightarrow> review_page" where
  "community_fetchClaims outcome p =
     (case outcome of
        Inr allClaims \<Rightarrow>
          p\<lparr>claims := filter (\<lambda>c. status c = authority_reviewed) allClaims, loading := False\<rparr>
      | Inl err \<Rightarrow> p\<lparr>loading := False\<rparr>)"

definition fetchClaims_effects :: "api_error + Claim list \<Rightarrow> review_effect list" where
  "fetchClaims_effects outcome =
     (case outcome of
        Inr allClaims \<Rightarrow> [GetClaims]
      | Inl err \<Rightarrow> [GetClaims, ConsoleError ''Error fetching claims:''])"

text \<open>
  Every write to \<open>claims\<close> goes through \<open>fetchClaims\<close> (on mount and after each submitted
  review), so the list shown after any history is the fold of the fetch outcomes.
\<close>

definition authority_fetch_all :: "(api_error + Claim list) list \<Rightarrow> review_page" where
  "authority_fetch_all outcomes =
     foldl (\<lambda>p outcome. authority_fetchClaims outcome p) authority_initial outcomes"

definition community_fetch_all :: "(api_error + Claim list) list \<Rightarrow> review_page" where
  "community_fetch_all outcomes =
     foldl (\<lambda>p outcome. community_fetchClaims outcome p) community_initial outcomes"

subsection \<open>Submitting a review\<close>

text \<open>
  \<open>String.prototype.trim\<close> strips white space and line terminators from both ends. A
  \<open>char\<close> stands for a code unit below 256; of those, tab, LF, VT, FF, CR, space and the
  no-break space are white space.
\<close>

definition is_white_space :: "char \<Rightarrow> bool" where
  "is_white_space c = (of_char c \<in> {9, 10, 11, 12, 13, 32, 160 :: nat})"

definition trim :: "string \<Rightarrow> string" where
  "trim s = rev (dropWhile is_white_space (rev (dropWhile is_white_space s)))"

text \<open>
  \<open>reviewData.notes?.trim()\<close> as a condition: \<open>undefined\<close> and the empty string are falsy.
\<close>

definition notes_trimmed_truthy :: "ReviewSubmission \<Rightarrow> bool" where
  "notes_trimmed_truthy rd = (case notes' rd of None \<Rightarrow> False | Some n \<Rightarrow> trim n \<noteq> [])"

text \<open>\<open>error.response?.data?.detail || 'Failed to submit review'\<close>.\<close>

definition review_alert_text :: "api_error \<Rightarrow> string" where
  "review_alert_text err =
     (case detail err of
        Some d \<Rightarrow> if d \<noteq> [] then d else ''Failed to submit review''
      | None \<Rightarrow> ''Failed to submit review'')"

text \<open>
  \<open>handleReview\<close> of \<open>AuthorityDashboard\<close>. The arguments after the decision are the
  outcomes of \<open>reviewApi.submitAuthorityReview\<close> and of the \<open>getClaims\<close> call of the
  refresh that follows a success.
\<close>

definition handleReview ::
  "ReviewDecision \<Rightarrow> api_error + unit \<Rightarrow> api_error + Claim list \<Rightarrow> review_page
     \<Rightarrow> review_page \<times> review_effect list" where
  "handleReview dec submit_outcome fetch_outcome p =
     (case selectedClaim p of
        None \<Rightarrow> (p, [])
      | Some sel \<Rightarrow>
          if \<not> notes_trimmed_truthy (reviewData p) then (p, [])
          else
            let submission = (reviewData p)\<lparr>claim_id := id' sel, decision := dec\<rparr> in
            (case submit_outcome of
               Inr ok \<Rightarrow>
                 ((authority_fetchClaims fetch_outcome p)
                    \<lparr>selectedClaim := None, reviewData := authority_blank_review,
                     submitting := False\<rparr>,
                  SubmitAuthorityReview submission # fetchClaims_effects fetch_outcome)
             | Inl err \<Rightarrow>
                 (p\<lparr>submitting := False\<rparr>,
                  [SubmitAuthorityReview submission, ConsoleError ''Error submitting review:'',
                   Alert (review_alert_text err)])))"

text \<open>\<open>handleSubmitReview\<close> of \<open>CommunityReview\<close>.\<close>

definition handleSubmitReview ::
  "ReviewDecision \<Rightarrow> api_error + unit \<Rightarrow> api_error + Claim list \<Rightarrow> review_page
     \<Rightarrow> review_page \<times> review_effect list" where
  "handleSubmitReview dec submit_outcome fetch_outcome p =
     (case selectedClaim p of
        None \<Rightarrow> (p, [])
      | Some sel \<Rightarrow>
          if \<not> notes_trimmed_truthy (reviewData p) then (p, [])
          else
            let submission = (reviewData p)\<lparr>claim_id := id' sel, decision := dec\<rparr> in
            (case submit_outcome of
               Inr ok \<Rightarrow>
                 ((community_fetchClaims fetch_outcome p)
                    \<lparr>selectedClaim := None, claimData := None,
                     reviewData := community_blank_review, submitting := False\<rparr>,
                  SubmitCommunityReview submission # fetchClaims_effects fetch_outcome)
             | Inl err \<Rightarrow>
                 (p\<lparr>submitting := False\<rparr>,
                  [SubmitCommunityReview submission, ConsoleError ''Error submitting review:'',
                   Alert (review_alert_text err)])))"

text \<open>The \<open>disabled\<close> attribute of the Approve and Reject buttons of both pages.\<close>

definition review_buttons_disabled :: "review_page \<Rightarrow> bool" where
  "review_buttons_disabled p = (\<not> notes_trimmed_truthy (reviewData p) \<or> submitting p)"

subsection \<open>Editing the positives and the concerns\<close>

text \<open>\<open>prev.positives || []\<close>.\<close>

definition or_empty :: "string list option \<Rightarrow> string list" where
  "or_empty xs = (case xs of None \<Rightarrow> [] | Some ys \<Rightarrow> ys)"

text \<open>The buttons \<open>+ Add Positive Point\<close> and \<open>+ Add Concern\<close> (the same in both pages).\<close>

definition addPositivePoint :: "ReviewSubmission \<Rightarrow> ReviewSubmission" where
  "addPositivePoint prev = prev\<lparr>positives := Some (or_empty (positives prev) @ [[]])\<rparr>"

definition addConcern :: "ReviewSubmission \<Rightarrow> ReviewSubmission" where
  "addConcern prev = prev\<lparr>concerns := Some (or_empty (concerns prev) @ [[]])\<rparr>"

text \<open>
  \<open>onChange\<close> of the input rendered for entry \<open>index\<close>. The inputs come from
  \<open>reviewData.positives?.map((positive, index) => ...)\<close>, so there is one for each index
  below the length of the list and no other: \<open>None\<close> says that no such input exists. The
  handler copies the list and assigns \<open>newPositives[index] = e.target.value\<close>.
\<close>

definition positive_onChange :: "nat \<Rightarrow> string \<Rightarrow> ReviewSubmission \<Rightarrow> ReviewSubmission option" where
  "positive_onChange index v rd =
     (case positives rd of
        None \<Rightarrow> None
      | Some ps \<Rightarrow>
          if index < length ps then Some (rd\<lparr>positives := Some (ps[index := v])\<rparr>) else None)"

definition concern_onChange :: "nat \<Rightarrow> string \<Rightarrow> ReviewSubmission \<Rightarrow> ReviewSubmission option" where
  "concern_onChange index v rd =
     (case concerns rd of
        None \<Rightarrow> None
      | Some cs \<Rightarrow>
          if index < length cs then Some (rd\<lparr>concerns := Some (cs[index := v])\<rparr>) else None)"

section \<open>ClaimDetail.tsx\<close>

subsection \<open>handleMint\<close>


text \<open>
  The amount: \<open>verified_impact?.point_estimate_tonnes_co2e || (verified_impact ? (min + max)
  / 2 : 0)\<close>. An absent point estimate and a falsy one (0 or \<open>NaN\<close>) both give way to the
  right operand; the sum and its half are each rounded to a double.
\<close>

definition mint_amount :: "VerificationResult \<Rightarrow> number" where
  "mint_amount v =
     (case verified_impact v of
        None \<Rightarrow> Finite 0
      | Some vi \<Rightarrow>
          (case point_estimate_tonnes_co2e vi of
             Some pt \<Rightarrow>
               if truthy pt then pt
               else js_div_2 (js_add (min_tonnes_co2e vi) (max_tonnes_co2e vi))
           | None \<Rightarrow> js_div_2 (js_add (min_tonnes_co2e vi) (max_tonnes_co2e vi))))"



subsection \<open>Polling the status\<close>

text \<open>
  The state cells that the two polling effects share, and for each effect whether an
  interval of its own is set (an interval that was cleared, or never created, does not
  fire).
\<close>

record detail_page =
  claimData :: "PublicClaimResponse option"
  aiAnalysisInProgress :: bool
  pollInterval_initial :: bool
  pollInterval_status :: bool

text \<open>The state when the component mounts.\<close>

definition initial_detail_page :: detail_page where
  "initial_detail_page =
     \<lparr>claimData = None, aiAnalysisInProgress = False, pollInterval_initial = False,
      pollInterval_status = False\<rparr>"

text \<open>\<open>!id\<close> for the route parameter: an absent and an empty \<open>id\<close> are falsy.\<close>

definition no_id :: "string option \<Rightarrow> bool" where
  "no_id ident = (case ident of None \<Rightarrow> True | Some i \<Rightarrow> i = [])"

text \<open>The condition under which either callback stops polling.\<close>

definition is_final_status :: "ClaimStatus \<Rightarrow> bool" where
  "is_final_status s =
     (s = ai_verified \<or> s = ai_rejected \<or> s = ai_analyzed \<or> s = authority_reviewed
      \<or> s = rejected \<or> s = approved \<or> s = minted)"

text \<open>
  \<open>fetchClaim\<close> of the first effect, once \<open>getPublicClaim\<close> has answered: the analysis
  screen is wanted exactly for a pending or running analysis. (\<open>loading\<close> and \<open>error\<close> are
  not among the cells modelled.)
\<close>

definition fetchClaim ::
  "string option \<Rightarrow> api_error + PublicClaimResponse \<Rightarrow> detail_page \<Rightarrow> detail_page" where
  "fetchClaim ident outcome pg =
     (if no_id ident then pg
      else
        (case outcome of
           Inr data \<Rightarrow>
             pg\<lparr>claimData := Some data,
                aiAnalysisInProgress :=
                  (status' data = ai_analysis_pending \<or> status' data = ai_analysis_in_progress)\<rparr>
         | Inl err \<Rightarrow> pg))"

text \<open>
  The rest of the first effect: when \<open>location.state?.aiAnalysisPending\<close> is truthy it
  shows the analysis screen and sets the interval.
\<close>

definition start_initial_polling :: "bool \<Rightarrow> detail_page \<Rightarrow> detail_page" where
  "start_initial_polling shouldStartPolling pg =
     (if shouldStartPolling
      then pg\<lparr>aiAnalysisInProgress := True, pollInterval_initial := True\<rparr>
      else pg)"

text \<open>
  One expiry of the first interval: the route parameter \<open>id\<close> and the outcome of
  \<open>claimsApi.getPublicClaim(id)\<close>.
\<close>

definition initial_poll_tick ::
  "string option \<Rightarrow> api_error + PublicClaimResponse \<Rightarrow> detail_page \<Rightarrow> detail_page" where
  "initial_poll_tick ident outcome pg =
     (if \<not> pollInterval_initial pg then pg
      else if no_id ident then pg\<lparr>pollInterval_initial := False\<rparr>
      else
        (case outcome of
           Inr data \<Rightarrow>
             if is_final_status (status' data)
             then pg\<lparr>claimData := Some data, aiAnalysisInProgress := False,
                     pollInterval_initial := False\<rparr>
             else pg\<lparr>claimData := Some data\<rparr>
         | Inl err \<Rightarrow> pg\<lparr>aiAnalysisInProgress := False, pollInterval_initial := False\<rparr>))"

text \<open>
  The second effect, each time it runs: the cleanup of the previous run clears the
  interval; then, when there are \<open>claimData\<close> and an \<open>id\<close> and the displayed status
  is pending or in progress, it shows the analysis screen and sets a new interval.
\<close>

definition status_poll_effect :: "string option \<Rightarrow> detail_page \<Rightarrow> detail_page" where
  "status_poll_effect ident pg =
     (case claimData pg of
        None \<Rightarrow> pg\<lparr>pollInterval_status := False\<rparr>
      | Some d \<Rightarrow>
          if no_id ident then pg\<lparr>pollInterval_status := False\<rparr>
          else if status' d = ai_analysis_pending \<or> status' d = ai_analysis_in_progress
          then pg\<lparr>aiAnalysisInProgress := True, pollInterval_status := True\<rparr>
          else pg\<lparr>pollInterval_status := False\<rparr>)"

text \<open>One expiry of the second interval.\<close>

definition status_poll_tick :: "api_error + PublicClaimResponse \<Rightarrow> detail_page \<Rightarrow> detail_page" where
  "status_poll_tick outcome pg =
     (if \<not> pollInterval_status pg then pg
      else
        (case outcome of
           Inr data \<Rightarrow>
             if is_final_status (status' data)
             then pg\<lparr>claimData := Some data, aiAnalysisInProgress := False,
                     pollInterval_status := False\<rparr>
             else pg\<lparr>claimData := Some data\<rparr>
         | Inl err \<Rightarrow> pg\<lparr>aiAnalysisInProgress := False, pollInterval_status := False\<rparr>))"

text \<open>
  The dependencies of the second effect that can change: \<open>claimData?.status\<close> and
  \<open>aiAnalysisInProgress\<close> (the \<open>id\<close> of a mounted page stays the same). The first effect
  depends on \<open>id\<close> and \<open>location.state\<close> only, so it never runs again.
\<close>

definition status_deps :: "detail_page \<Rightarrow> ClaimStatus option \<times> bool" where
  "status_deps pg = (map_option status' (claimData pg), aiAnalysisInProgress pg)"

text \<open>
  The render that follows the state updates of a handler: React runs the second effect
  again when a dependency differs from the previous render, and once more when the effect
  itself changed \<open>aiAnalysisInProgress\<close>.
\<close>

definition rerender :: "string option \<Rightarrow> detail_page \<Rightarrow> detail_page \<Rightarrow> detail_page" where
  "rerender ident before after =
     (if status_deps after = status_deps before then after
      else
        let again = status_poll_effect ident after
        in if status_deps again = status_deps after then again
           else status_poll_effect ident again)"

text \<open>
  Mounting the page: the first effect starts \<open>fetchClaim\<close> and, when asked to, the first
  interval; the second effect finds no \<open>claimData\<close> yet; then \<open>fetchClaim\<close> gets its
  answer.
\<close>

definition mount ::
  "string option \<Rightarrow> bool \<Rightarrow> api_error + PublicClaimResponse \<Rightarrow> detail_page" where
  "mount ident shouldStartPolling outcome =
     (let started = status_poll_effect ident
                      (start_initial_polling shouldStartPolling initial_detail_page)
      in rerender ident started (fetchClaim ident outcome started))"

text \<open>The expiry of one of the two intervals, with the answer to its request.\<close>

datatype poll_event =
    InitialExpiry "api_error + PublicClaimResponse"
  | StatusExpiry "api_error + PublicClaimResponse"

fun page_step :: "string option \<Rightarrow> poll_event \<Rightarrow> detail_page \<Rightarrow> detail_page" where
  "page_step ident (InitialExpiry outcome) pg = rerender ident pg (initial_poll_tick ident outcome pg)"
| "page_step ident (StatusExpiry outcome) pg = rerender ident pg (status_poll_tick outcome pg)"

text \<open>Whether the expiry sends a request: its interval is set, and there is an \<open>id\<close>.\<close>

fun sends_request :: "string option \<Rightarrow> poll_event \<Rightarrow> detail_page \<Rightarrow> bool" where
  "sends_request ident (InitialExpiry outcome) pg = (pollInterval_initial pg \<and> \<not> no_id ident)"
| "sends_request ident (StatusExpiry outcome) pg = pollInterval_status pg"

text \<open>
  The page over a sequence of expiries: the state afterwards and the number of requests
  sent.
\<close>

fun page_run :: "string option \<Rightarrow> poll_event list \<Rightarrow> detail_page \<Rightarrow> detail_page \<times> nat" where
  "page_run ident [] pg = (pg, 0)"
| "page_run ident (ev # evs) pg =
     (let (pg', n) = page_run ident evs (page_step ident ev pg)
      in (pg', (if sends_request ident ev pg then Suc n else n)))"

text \<open>
  The screen with the spinner (\<open>AI Analysis Pending\<close> or \<open>Analyzing Satellite Imagery and
  NDVI\<close>), returned before any other view.
\<close>

definition analysis_screen_shown :: "detail_page \<Rightarrow> bool" where
  "analysis_screen_shown pg =
     (case claimData pg of
        None \<Rightarrow> False
      | Some d \<Rightarrow> (aiAnalysisInProgress pg \<or> status' d = ai_rejected) \<and> status' d \<noteq> ai_rejected)"

section \<open>ClaimTimeline.tsx\<close>

datatype event_status = completed | active | pending

text \<open>An entry of \<open>timelineEvents\<close>: its \<open>id\<close>, \<open>title\<close> and \<open>status\<close>.\<close>

record timeline_event =
  event_id :: string
  event_title :: string
  event_status :: event_status

text \<open>
  The four fixed entries, and \<open>Credits Minted\<close> pushed at the end when the claim is minted.
  \<open>[...].includes(claim.status)\<close> is membership in the list.
\<close>

definition timelineEvents :: "Claim \<Rightarrow> timeline_event list" where
  "timelineEvents cl =
     [\<lparr>event_id = ''submitted'', event_title = ''Claim Submitted'', event_status = completed\<rparr>,
      \<lparr>event_id = ''ai_analyzed'', event_title = ''AI Analysis'',
       event_status =
         (if status cl \<in> set [ai_analyzed, ai_verified, verified, authority_reviewed,
                                   community_reviewed, approved, minted]
          then completed
          else if status cl = submitted then active
          else pending)\<rparr>,
      \<lparr>event_id = ''authority_review'', event_title = ''Authority Review'',
       event_status =
         (if status cl \<in> set [authority_reviewed, community_reviewed, approved, minted]
          then completed
          else if status cl \<in> set [ai_analyzed, ai_verified, verified] then active
          else pending)\<rparr>,
      \<lparr>event_id = ''community_review'', event_title = ''Community Transparency'',
       event_status =
         (if status cl \<in> set [community_reviewed, approved, minted] then completed
          else if status cl = authority_reviewed then active
          else pending)\<rparr>]
     @ (if status cl = minted
        then [\<lparr>event_id = ''minted'', event_title = ''Credits Minted'', event_status = completed\<rparr>]
        else [])"

section \<open>SubmitClaim.tsx\<close>

subsection \<open>Form data and the submitted payload\<close>

datatype ClaimType =
    mangrove_restoration
  | solar_installation
  | wind_installation
  | reforestation
  | wetland_restoration
  | avoided_deforestation
  | other

text \<open>A browser \<open>File\<close>: its name, its MIME type and its size.\<close>

record File =
  file_name :: string
  file_type :: string
  file_size :: nat

record CarbonImpactEstimate =
  min_tonnes_co2e :: rat
  max_tonnes_co2e :: rat
  estimation_methodology :: "string option"
  time_horizon_years :: rat

record GeoLocation =
  latitude :: rat
  longitude :: rat

text \<open>\<open>ClaimSubmission\<close>, the body of \<open>POST /claims\<close>.\<close>

record ClaimSubmission =
  claim_type :: ClaimType
  title :: string
  description :: string
  location :: "GeoLocation option"
  geometry_geojson :: "string option"
  area_hectares :: "rat option"
  carbon_impact_estimate :: CarbonImpactEstimate
  action_start_date :: string
  action_end_date :: "string option"
  stated_assumptions :: "string list"
  known_limitations :: "string list"
  submitter_name :: string
  submitter_contact :: "string option"

text \<open>The \<open>location\<close> of the form: \<open>{lat, lng, polygon?}\<close>.\<close>

record form_location =
  lat :: rat
  lng :: rat
  polygon :: "(rat \<times> rat) list option"

text \<open>
  \<open>FormData\<close>. It has the field names of \<open>ClaimSubmission\<close>; unqualified, they are the
  form's from here on. \<open>geometry_geojson\<close> is an opaque JSON value.
\<close>

record FormData =
  claim_type :: ClaimType
  title :: string
  description :: string
  location :: "form_location option"
  geometry_geojson :: "string option"
  area_hectares :: "rat option"
  carbon_impact_estimate :: CarbonImpactEstimate
  action_start_date :: string
  action_end_date :: "string option"
  stated_assumptions :: "string list"
  known_limitations :: "string list"
  submitter_name :: string
  submitter_contact :: "string option"
  evidenceFiles :: "File list"

text \<open>
  The state of the page. \<open>errors\<close> is a \<open>Record<string, string>\<close>: an association list
  with one pair for each key.
\<close>

record submit_page =
  currentStep :: nat
  isSubmitting :: bool
  uploadingEvidence :: bool
  formData :: FormData
  errors :: "(string \<times> string) list"

text \<open>The initial form; \<open>today\<close> is \<open>new Date().toISOString().split('T')[0]\<close>.\<close>

definition initial_formData :: "string \<Rightarrow> FormData" where
  "initial_formData today =
     \<lparr>claim_type = reforestation, title = [], description = [], location = None,
      geometry_geojson = None, area_hectares = None,
      carbon_impact_estimate =
        \<lparr>min_tonnes_co2e = 0, max_tonnes_co2e = 0, estimation_methodology = None,
         time_horizon_years = 1\<rparr>,
      action_start_date = today, action_end_date = None, stated_assumptions = [[]],
      known_limitations = [[]], submitter_name = [], submitter_contact = None,
      evidenceFiles = []\<rparr>"

definition initial_submit_page :: "string \<Rightarrow> submit_page" where
  "initial_submit_page today =
     \<lparr>currentStep = 1, isSubmitting = False, uploadingEvidence = False,
      formData = initial_formData today, errors = []\<rparr>"

subsection \<open>validateStep\<close>

text \<open>\<open>if (cond) newErrors[key] = msg\<close>: a later assignment to a key replaces the earlier.\<close>

definition error_if :: "bool \<Rightarrow> string \<Rightarrow> string \<Rightarrow> (string \<times> string) list \<Rightarrow> (string \<times> string) list" where
  "error_if cond key msg errs = (if cond then AList.update key msg errs else errs)"

text \<open>
  \<open>newErrors\<close> at the end of the switch. In case 1, \<open>!formData.claim_type\<close> is false for
  every value of \<open>ClaimType\<close> (none is the empty string). Steps 5 and 6 have no case.
\<close>

definition newErrors :: "nat \<Rightarrow> FormData \<Rightarrow> (string \<times> string) list" where
  "newErrors step fd =
     (if step = 1 then []
      else if step = 2 then
        error_if (trim (submitter_name fd) = []) ''submitter_name'' ''Your name is required''
          (error_if (length (description fd) < 20) ''description''
               ''Description must be at least 20 characters''
            (error_if (trim (description fd) = []) ''description'' ''Description is required''
              (error_if (length (title fd) < 5) ''title'' ''Title must be at least 5 characters''
                (error_if (trim (title fd) = []) ''title'' ''Title is required'' []))))
      else if step = 3 then
        error_if (location fd = None \<and> geometry_geojson fd = None) ''location''
          ''Please select a location on the map'' []
      else if step = 4 then
        error_if (action_start_date fd = []) ''action_start_date''
            ''Action start date is required''
          (error_if (max_tonnes_co2e (carbon_impact_estimate fd)
                       \<le> min_tonnes_co2e (carbon_impact_estimate fd))
               ''carbon_impact'' ''Maximum CO2 impact must be greater than minimum''
            (error_if (min_tonnes_co2e (carbon_impact_estimate fd) \<le> 0) ''carbon_impact''
                 ''Minimum CO2 impact must be greater than 0'' []))
      else [])"

text \<open>
  \<open>validateStep\<close> stores \<open>newErrors\<close> in the state and returns whether it has no key.
\<close>

definition validateStep :: "nat \<Rightarrow> submit_page \<Rightarrow> bool \<times> submit_page" where
  "validateStep step pg =
     (newErrors step (formData pg) = [], pg\<lparr>errors := newErrors step (formData pg)\<rparr>)"

subsection \<open>handleSubmit\<close>

datatype submit_effect =
    PostClaim ClaimSubmission
  | UploadEvidence string "File list"
  | LogError string
  | Navigate string string bool

text \<open>
  \<open>error.response?.data?.detail || error.message || 'Failed to submit claim. Please try
  again.'\<close>: an absent or empty string is falsy.
\<close>

definition errorMessage :: "api_error \<Rightarrow> string" where
  "errorMessage err =
     (case detail err of
        Some d \<Rightarrow> if d \<noteq> [] then d else
          (case message err of
             Some m \<Rightarrow> if m \<noteq> [] then m else ''Failed to submit claim. Please try again.''
           | None \<Rightarrow> ''Failed to submit claim. Please try again.'')
      | None \<Rightarrow>
          (case message err of
             Some m \<Rightarrow> if m \<noteq> [] then m else ''Failed to submit claim. Please try again.''
           | None \<Rightarrow> ''Failed to submit claim. Please try again.''))"

text \<open>
  The payload. \<open>toISOString\<close> stands for \<open>new Date(s).toISOString()\<close>, which throws a
  \<open>RangeError\<close> when \<open>s\<close> is not a date: \<open>None\<close>, and then no payload is built.
\<close>

definition submission :: "(string \<Rightarrow> string option) \<Rightarrow> FormData \<Rightarrow> ClaimSubmission option" where
  "submission toISOString fd =
     (case toISOString (action_start_date fd) of
        None \<Rightarrow> None
      | Some start \<Rightarrow>
          (case (case action_end_date fd of
                   None \<Rightarrow> Some None
                 | Some e \<Rightarrow> if e = [] then Some None else map_option Some (toISOString e)) of
             None \<Rightarrow> None
           | Some end_date \<Rightarrow>
               Some \<lparr>ClaimSubmission.claim_type = claim_type fd,
                     title = title fd,
                     description = description fd,
                     location =
                       map_option (\<lambda>l. \<lparr>latitude = lat l, longitude = lng l\<rparr>) (location fd),
                     geometry_geojson = geometry_geojson fd,
                     area_hectares = area_hectares fd,
                     carbon_impact_estimate =
                       \<lparr>min_tonnes_co2e = min_tonnes_co2e (carbon_impact_estimate fd),
                        max_tonnes_co2e = max_tonnes_co2e (carbon_impact_estimate fd),
                        estimation_methodology =
                          estimation_methodology (carbon_impact_estimate fd),
                        time_horizon_years = time_horizon_years (carbon_impact_estimate fd)\<rparr>,
                     action_start_date = start,
                     action_end_date = end_date,
                     stated_assumptions = filter (\<lambda>a. trim a \<noteq> []) (stated_assumptions fd),
                     known_limitations = filter (\<lambda>l. trim l \<noteq> []) (known_limitations fd),
                     submitter_name = submitter_name fd,
                     submitter_contact = submitter_contact fd\<rparr>))"

text \<open>The error object of the \<open>RangeError\<close> thrown by \<open>toISOString\<close>.\<close>

definition range_error :: api_error where
  "range_error = \<lparr>detail = None, message = Some ''Invalid time value''\<rparr>"

text \<open>The outer catch block followed by the outer \<open>finally\<close>.\<close>

definition submit_failed :: "api_error \<Rightarrow> submit_page \<Rightarrow> submit_page" where
  "submit_failed err pg =
     pg\<lparr>errors := [(''submit'', errorMessage err)], isSubmitting := False,
        uploadingEvidence := False\<rparr>"

text \<open>
  \<open>handleSubmit\<close>. After the date conversion come the outcomes of
  \<open>claimsApi.submitClaim\<close> and of \<open>claimsApi.uploadEvidence\<close> (the latter is awaited only
  when there are evidence files).
\<close>

definition handleSubmit ::
  "(string \<Rightarrow> string option) \<Rightarrow> api_error + Claim \<Rightarrow> api_error + unit \<Rightarrow> submit_page
     \<Rightarrow> submit_page \<times> submit_effect list" where
  "handleSubmit toISOString submit_outcome upload_outcome pg =
     (let (valid, pg1) = validateStep 4 pg; fd = formData pg1 in
      if \<not> valid \<or> (location fd = None \<and> geometry_geojson fd = None) then (pg1, [])
      else
        (case submission toISOString fd of
           None \<Rightarrow> (submit_failed range_error pg1, [LogError ''Error submitting claim:''])
         | Some payload \<Rightarrow>
             (case submit_outcome of
                Inl err \<Rightarrow>
                  (submit_failed err pg1, [PostClaim payload, LogError ''Error submitting claim:''])
              | Inr created \<Rightarrow>
                  (pg1\<lparr>isSubmitting := False, uploadingEvidence := False\<rparr>,
                   PostClaim payload
                   # (if evidenceFiles fd \<noteq> []
                      then UploadEvidence (id' created) (evidenceFiles fd)
                           # (case upload_outcome of
                                Inl err \<Rightarrow> [LogError ''Error uploading evidence:'']
                              | Inr ok \<Rightarrow> [])
                      else [])
                   @ [Navigate (''/claim/'' @ id' created)
                        ''Claim submitted successfully! AI analysis is starting...''
                        (status created = ai_analysis_pending
                         \<or> status created = ai_analysis_in_progress)]))))"

section \<open>EvidenceUploader.tsx\<close>

datatype evidence_type = image | video | document

text \<open>
  \<open>EvidenceFile\<close> (\<open>evidence_id\<close> is its \<open>id\<close>, \<open>file'\<close> its \<open>file\<close> and \<open>kind\<close> its
  \<open>type\<close>).
\<close>

record EvidenceFile =
  evidence_id :: string
  file' :: File
  preview :: "string option"
  kind :: evidence_type
  uploaded :: bool

definition getFileType :: "File \<Rightarrow> evidence_type" where
  "getFileType f =
     (if prefix ''image/'' (file_type f) then image
      else if prefix ''video/'' (file_type f) then video
      else document)"

text \<open>
  \<open>createPreview\<close>: for an image the promise resolves with what the \<open>FileReader\<close> loaded,
  for any other file with \<open>undefined\<close>. \<open>reader f\<close> is the outcome of reading \<open>f\<close>:
  \<open>Some r\<close> when \<open>onload\<close> fires with result \<open>r\<close>, and \<open>None\<close> when it never fires (the
  read fails), in which case the promise stays pending for ever. The result of
  \<open>createPreview\<close> is \<open>None\<close> for a pending promise.
\<close>

definition createPreview :: "(File \<Rightarrow> string option option) \<Rightarrow> File \<Rightarrow> string option option" where
  "createPreview reader f = (if prefix ''image/'' (file_type f) then reader f else Some None)"

text \<open>
  \<open>Array.prototype.slice(0, end)\<close> for an integer \<open>end\<close>: a negative \<open>end\<close> counts from
  the end of the array.
\<close>

definition slice0 :: "'a list \<Rightarrow> int \<Rightarrow> 'a list" where
  "slice0 xs e = (if e < 0 then take (nat (int (length xs) + e)) xs else take (nat e) xs)"

text \<open>
  The state of the component: its \<open>files\<close>, and the arguments of the calls of
  \<open>onFilesChange\<close> so far, the latest last.
\<close>

record uploader =
  files :: "EvidenceFile list"
  reported :: "File list list"

definition initial_uploader :: uploader where
  "initial_uploader = \<lparr>files = [], reported = []\<rparr>"

text \<open>
  \<open>handleFiles\<close>, up to the two state updates at its end. \<open>maxFiles\<close> is the limit (an
  integer; 10 by default, 20 on the submission page); \<open>random_id k\<close> is the identifier
  drawn for the \<open>k\<close>-th added file. When a preview stays pending, \<open>Promise.all\<close> never
  resolves and the handler never gets to its updates: the state is unchanged. Calls are
  taken one at a time, so the \<open>files\<close> that the handler closes over is the current list.
\<close>

definition handleFiles ::
  "int \<Rightarrow> (File \<Rightarrow> string option option) \<Rightarrow> (nat \<Rightarrow> string) \<Rightarrow> File list \<Rightarrow> uploader \<Rightarrow> uploader" where
  "handleFiles maxFiles reader random_id newFiles u =
     (let remainingSlots = maxFiles - int (length (files u));
          filesToAdd = slice0 newFiles remainingSlots
      in if \<exists>f \<in> set filesToAdd. createPreview reader f = None then u
         else
           let evidenceFiles =
                 map (\<lambda>(k, f). \<lparr>evidence_id = random_id k, file' = f,
                                  preview = the (createPreview reader f),
                                  kind = getFileType f, uploaded = False\<rparr>)
                   (enumerate 0 filesToAdd);
               updatedFiles = files u @ evidenceFiles
           in \<lparr>files = updatedFiles, reported = reported u @ [map file' updatedFiles]\<rparr>)"

text \<open>The timer that \<open>handleFiles\<close> sets for each added file marks it as uploaded.\<close>

definition mark_uploaded :: "string \<Rightarrow> uploader \<Rightarrow> uploader" where
  "mark_uploaded ident u =
     u\<lparr>files := map (\<lambda>f. if evidence_id f = ident then f\<lparr>uploaded := True\<rparr> else f) (files u)\<rparr>"

definition removeFile :: "string \<Rightarrow> uploader \<Rightarrow> uploader" where
  "removeFile ident u =
     (let updatedFiles = filter (\<lambda>f. evidence_id f \<noteq> ident) (files u)
      in \<lparr>files = updatedFiles, reported = reported u @ [map file' updatedFiles]\<rparr>)"

text \<open>What can happen to the component, and a history of such events from the start.\<close>

datatype uploader_event =
    HandleFiles "File \<Rightarrow> string option option" "nat \<Rightarrow> string" "File list"
  | UploadTimer string
  | RemoveFile string

fun uploader_step :: "int \<Rightarrow> uploader \<Rightarrow> uploader_event \<Rightarrow> uploader" where
  "uploader_step maxFiles u (HandleFiles reader random_id newFiles) =
     handleFiles maxFiles reader random_id newFiles u"
| "uploader_step maxFiles u (UploadTimer ident) = mark_uploaded ident u"
| "uploader_step maxFiles u (RemoveFile ident) = removeFile ident u"

definition uploader_run :: "int \<Rightarrow> uploader_event list \<Rightarrow> uploader" where
  "uploader_run maxFiles events = foldl (uploader_step maxFiles) initial_uploader events"

section \<open>Data for the examples\<close>

subsection \<open>A filled form\<close>

text \<open>A form as a submitter may fill it, and the payload built from it.\<close>

definition example_file :: File where
  "example_file = \<lparr>file_name = ''site.jpg'', file_type = ''image/jpeg'', file_size = 120000\<rparr>"

definition example_formData :: FormData where
  "example_formData =
     (initial_formData ''2026-01-15'')
       \<lparr>title := ''Mangrove belt'',
        description := ''Replanting of 12 ha of mangroves'',
        location := Some \<lparr>lat = 19, lng = 73, polygon = None\<rparr>,
        carbon_impact_estimate :=
          \<lparr>min_tonnes_co2e = 10, max_tonnes_co2e = 20, estimation_methodology = None,
           time_horizon_years = 1\<rparr>,
        submitter_name := ''Ana'',
        evidenceFiles := [example_file]\<rparr>"

definition example_submit_page :: submit_page where
  "example_submit_page =
     \<lparr>currentStep = 6, isSubmitting = False, uploadingEvidence = False,
      formData = example_formData, errors = []\<rparr>"

definition example_payload :: ClaimSubmission where
  "example_payload =
     \<lparr>ClaimSubmission.claim_type = reforestation,
      title = ''Mangrove belt'',
      description = ''Replanting of 12 ha of mangroves'',
      location = Some \<lparr>latitude = 19, longitude = 73\<rparr>,
      geometry_geojson = None,
      area_hectares = None,
      carbon_impact_estimate =
        \<lparr>min_tonnes_co2e = 10, max_tonnes_co2e = 20, estimation_methodology = None,
         time_horizon_years = 1\<rparr>,
      action_start_date = ''2026-01-15T00:00:00.000Z'',
      action_end_date = None,
      stated_assumptions = [],
      known_limitations = [],
      submitter_name = ''Ana'',
      submitter_contact = None\<rparr>"

definition example_toISOString :: "string \<Rightarrow> string option" where
  "example_toISOString s = (if s = [] then None else Some (s @ ''T00:00:00.000Z''))"

subsection \<open>A claim ready for minting\<close>


subsection \<open>Evidence files\<close>

definition example_report :: File where
  "example_report = \<lparr>file_name = ''permit.pdf'', file_type = ''application/pdf'', file_size = 52000\<rparr>"

definition example_video :: File where
  "example_video = \<lparr>file_name = ''drone.mp4'', file_type = ''video/mp4'', file_size = 900000\<rparr>"

definition example_reader :: "File \<Rightarrow> string option option" where
  "example_reader f = Some (Some (''data:'' @ file_type f))"

definition example_random_id :: "nat \<Rightarrow> string" where
  "example_random_id k = (if k = 0 then ''k3j9x0q2a'' else ''p07fzz1mc'')"

subsection \<open>A polled claim\<close>

text \<open>The answer of \<open>GET /public/claims/c1\<close> while the claim has status \<open>s\<close>.\<close>

definition example_response :: "ClaimStatus \<Rightarrow> PublicClaimResponse" where
  "example_response s =
     \<lparr>claim = \<lparr>id' = ''c1'', status = s\<rparr>, verification = None, can_mint = False,
      status' = s\<rparr>"

section \<open>Verified properties\<close>

subsection \<open>Verdict presentation\<close>

text \<open>
  C4. For each of the three verdict values of the declared \<open>AIConsistencyResult\<close> type,
  \<open>getVerdictLabel\<close> returns \<open>Uncertain\<close>, \<open>getVerdictColor\<close> returns \<open>warning\<close>,
  \<open>getVerdictIcon\<close> is the yellow warning triangle and the header badge takes the yellow
  default class: the \<open>consistent\<close> and \<open>inconsistent\<close> branches are never taken, so icon,
  colour and label are the same for all three verdicts.
\<close>

theorem verdict_switches_always_default:
  "getVerdictLabel (verdict_string v) = ''Uncertain''
   \<and> getVerdictColor (verdict_string v) = ''warning''
   \<and> getVerdictIcon (verdict_string v) = AlertTriangle_yellow
   \<and> ai_verdict_badge_class (verdict_string v) = ''bg-yellow-100 text-yellow-800''
   \<and> verdict_string v \<noteq> ''consistent'' \<and> verdict_string v \<noteq> ''inconsistent''"
  by (cases v)
     (simp_all add: getVerdictLabel_def getVerdictColor_def getVerdictIcon_def
        ai_verdict_badge_class_def)

subsection \<open>Review dashboards: which claims are offered\<close>

lemma authority_fetchClaims_keeps:
  assumes "\<And>c. c \<in> set (claims p) \<Longrightarrow> status c \<in> {ai_verified, ai_analyzed, verified}"
  shows "c \<in> set (claims (authority_fetchClaims outcome p))
           \<Longrightarrow> status c \<in> {ai_verified, ai_analyzed, verified}"
  using assms by (cases outcome) (auto simp: authority_fetchClaims_def)

lemma community_fetchClaims_keeps:
  assumes "\<And>c. c \<in> set (claims p) \<Longrightarrow> status c = authority_reviewed"
  shows "c \<in> set (claims (community_fetchClaims outcome p)) \<Longrightarrow> status c = authority_reviewed"
  using assms by (cases outcome) (auto simp: community_fetchClaims_def)

lemma authority_fetch_all_eligible:
  "c \<in> set (claims (authority_fetch_all outcomes))
     \<Longrightarrow> status c \<in> {ai_verified, ai_analyzed, verified}"
proof (induction outcomes arbitrary: c rule: rev_induct)
  case Nil
  then show ?case by (simp add: authority_fetch_all_def authority_initial_def)
next
  case (snoc outcome outcomes)
  have step: "authority_fetch_all (outcomes @ [outcome])
                = authority_fetchClaims outcome (authority_fetch_all outcomes)"
    by (simp add: authority_fetch_all_def)
  show ?case
    using snoc.prems authority_fetchClaims_keeps [of "authority_fetch_all outcomes" c outcome]
      snoc.IH
    unfolding step by blast
qed

lemma community_fetch_all_eligible:
  "c \<in> set (claims (community_fetch_all outcomes)) \<Longrightarrow> status c = authority_reviewed"
proof (induction outcomes arbitrary: c rule: rev_induct)
  case Nil
  then show ?case by (simp add: community_fetch_all_def community_initial_def)
next
  case (snoc outcome outcomes)
  have step: "community_fetch_all (outcomes @ [outcome])
                = community_fetchClaims outcome (community_fetch_all outcomes)"
    by (simp add: community_fetch_all_def)
  show ?case
    using snoc.prems community_fetchClaims_keeps [of "community_fetch_all outcomes" c outcome]
      snoc.IH
    unfolding step by blast
qed

text \<open>
  C2. After a successful fetch the authority dashboard offers exactly the claims whose
  status is \<open>ai_verified\<close>, \<open>ai_analyzed\<close> or \<open>verified\<close> (in the order received), and the
  community page exactly those whose status is \<open>authority_reviewed\<close>. Whatever the history
  of successful and failed fetches, every claim offered for authority review has one of
  the three statuses, so a claim with status \<open>ai_rejected\<close> is never offered, and every
  claim offered for community review has status \<open>authority_reviewed\<close>.
\<close>

theorem review_lists_match_stage_preconditions:
  "claims (authority_fetchClaims (Inr allClaims) p)
     = filter (\<lambda>c. status c \<in> {ai_verified, ai_analyzed, verified}) allClaims
   \<and> set (claims (authority_fetchClaims (Inr allClaims) p))
     = {c \<in> set allClaims. status c \<in> {ai_verified, ai_analyzed, verified}}
   \<and> claims (community_fetchClaims (Inr allClaims) p)
     = filter (\<lambda>c. status c = authority_reviewed) allClaims
   \<and> set (claims (community_fetchClaims (Inr allClaims) p))
     = {c \<in> set allClaims. status c = authority_reviewed}
   \<and> (\<forall>c \<in> set (claims (authority_fetch_all outcomes)).
         status c \<in> {ai_verified, ai_analyzed, verified} \<and> status c \<noteq> ai_rejected)
   \<and> (\<forall>c \<in> set (claims (community_fetch_all outcomes)). status c = authority_reviewed)"
proof -
  have a: "claims (authority_fetchClaims (Inr allClaims) p)
     = filter (\<lambda>c. status c \<in> {ai_verified, ai_analyzed, verified}) allClaims"
    by (simp add: authority_fetchClaims_def disj_commute disj_left_commute)
  have b: "claims (community_fetchClaims (Inr allClaims) p)
     = filter (\<lambda>c. status c = authority_reviewed) allClaims"
    by (simp add: community_fetchClaims_def)
  have c: "\<forall>c \<in> set (claims (authority_fetch_all outcomes)).
         status c \<in> {ai_verified, ai_analyzed, verified} \<and> status c \<noteq> ai_rejected"
    using authority_fetch_all_eligible by fastforce
  have d: "\<forall>c \<in> set (claims (community_fetch_all outcomes)). status c = authority_reviewed"
    using community_fetch_all_eligible by blast
  show ?thesis
    unfolding a b using c d by auto
qed

theorem review_lists_match_stage_preconditions_witness:
  "claims (authority_fetch_all
      [Inr [\<lparr>id' = ''c1'', status = ai_verified\<rparr>,
            \<lparr>id' = ''c2'', status = ai_rejected\<rparr>,
            \<lparr>id' = ''c3'', status = authority_reviewed\<rparr>],
       Inl \<lparr>detail = None, message = Some ''Network Error''\<rparr>])
     = [\<lparr>id' = ''c1'', status = ai_verified\<rparr>]
   \<and> claims (community_fetch_all
      [Inr [\<lparr>id' = ''c1'', status = ai_verified\<rparr>,
            \<lparr>id' = ''c2'', status = ai_rejected\<rparr>,
            \<lparr>id' = ''c3'', status = authority_reviewed\<rparr>],
       Inl \<lparr>detail = None, message = Some ''Network Error''\<rparr>])
     = [\<lparr>id' = ''c3'', status = authority_reviewed\<rparr>]"
  using review_lists_match_stage_preconditions
    [of "[]" authority_initial
        "[Inr [\<lparr>id' = ''c1'', status = ai_verified\<rparr>,
            \<lparr>id' = ''c2'', status = ai_rejected\<rparr>,
            \<lparr>id' = ''c3'', status = authority_reviewed\<rparr>],
       Inl \<lparr>detail = None, message = Some ''Network Error''\<rparr>]"]
  by (simp add: authority_fetch_all_def community_fetch_all_def authority_fetchClaims_def
      community_fetchClaims_def authority_initial_def community_initial_def)

subsection \<open>Review submission: notes are required\<close>

lemma trim_Nil_iff: "trim s = [] \<longleftrightarrow> (\<forall>c \<in> set s. is_white_space c)"
proof -
  let ?d = "dropWhile is_white_space s"
  have "trim s = [] \<longleftrightarrow> (\<forall>c \<in> set ?d. is_white_space c)"
    by (simp add: trim_def dropWhile_eq_Nil_conv)
  also have "\<dots> \<longleftrightarrow> ?d = []"
  proof
    assume all: "\<forall>c \<in> set ?d. is_white_space c"
    show "?d = []"
    proof (rule ccontr)
      assume ne: "?d \<noteq> []"
      then have "\<not> is_white_space (hd ?d)" by (rule hd_dropWhile)
      moreover have "hd ?d \<in> set ?d" using ne by simp
      ultimately show False using all by blast
    qed
  next
    assume "?d = []"
    then show "\<forall>c \<in> set ?d. is_white_space c" by (auto dest: set_dropWhileD)
  qed
  also have "\<dots> \<longleftrightarrow> (\<forall>c \<in> set s. is_white_space c)"
    by (simp add: dropWhile_eq_Nil_conv)
  finally show ?thesis .
qed

lemma handleReview_request:
  assumes "SubmitAuthorityReview s \<in> set (snd (handleReview dec so fo p))"
  shows "notes_trimmed_truthy (reviewData p) \<and> notes' s = notes' (reviewData p)
         \<and> decision s = dec
         \<and> positives s = positives (reviewData p) \<and> concerns s = concerns (reviewData p)"
  using assms
  by (auto simp: handleReview_def fetchClaims_effects_def Let_def
           split: option.splits if_splits sum.splits)

lemma handleSubmitReview_request:
  assumes "SubmitCommunityReview s \<in> set (snd (handleSubmitReview dec so fo p))"
  shows "notes_trimmed_truthy (reviewData p) \<and> notes' s = notes' (reviewData p)
         \<and> decision s = dec
         \<and> positives s = positives (reviewData p) \<and> concerns s = concerns (reviewData p)"
  using assms
  by (auto simp: handleSubmitReview_def fetchClaims_effects_def Let_def
           split: option.splits if_splits sum.splits)

lemma blank_notes_no_effect:
  assumes "\<not> notes_trimmed_truthy (reviewData p)"
  shows "handleReview dec so fo p = (p, []) \<and> handleSubmitReview dec so fo p = (p, [])"
  using assms by (simp add: handleReview_def handleSubmitReview_def split: option.splits)

text \<open>
  C6. Whatever the decision and the outcomes of the API calls, a review request issued by
  \<open>handleReview\<close> or by \<open>handleSubmitReview\<close> carries the chosen decision and notes whose
  trimmed text is not empty, that is, notes with a character that is not white space. When
  the notes are missing, empty or white space only, either handler returns at its guard
  (no request, no effect at all, state unchanged) and the Approve and Reject buttons are
  disabled.
\<close>

theorem review_request_requires_notes:
  "(\<forall>s. SubmitAuthorityReview s \<in> set (snd (handleReview dec so fo p)) \<longrightarrow>
        decision s = dec \<and>
        (\<exists>n. notes' s = Some n \<and> trim n \<noteq> [] \<and> (\<exists>c \<in> set n. \<not> is_white_space c)))
   \<and> (\<forall>s. SubmitCommunityReview s \<in> set (snd (handleSubmitReview dec so fo p)) \<longrightarrow>
        decision s = dec \<and>
        (\<exists>n. notes' s = Some n \<and> trim n \<noteq> [] \<and> (\<exists>c \<in> set n. \<not> is_white_space c)))
   \<and> ((\<forall>n. notes' (reviewData p) = Some n \<longrightarrow> trim n = []) \<longrightarrow>
        handleReview dec so fo p = (p, []) \<and> handleSubmitReview dec so fo p = (p, [])
        \<and> review_buttons_disabled p)"
proof (intro conjI allI impI)
  fix s assume "SubmitAuthorityReview s \<in> set (snd (handleReview dec so fo p))"
  from handleReview_request [OF this]
  show "decision s = dec"
    and "\<exists>n. notes' s = Some n \<and> trim n \<noteq> [] \<and> (\<exists>c \<in> set n. \<not> is_white_space c)"
    by (auto simp: notes_trimmed_truthy_def trim_Nil_iff split: option.splits)
next
  fix s assume "SubmitCommunityReview s \<in> set (snd (handleSubmitReview dec so fo p))"
  from handleSubmitReview_request [OF this]
  show "decision s = dec"
    and "\<exists>n. notes' s = Some n \<and> trim n \<noteq> [] \<and> (\<exists>c \<in> set n. \<not> is_white_space c)"
    by (auto simp: notes_trimmed_truthy_def trim_Nil_iff split: option.splits)
next
  assume "\<forall>n. notes' (reviewData p) = Some n \<longrightarrow> trim n = []"
  then have blank: "\<not> notes_trimmed_truthy (reviewData p)"
    by (simp add: notes_trimmed_truthy_def split: option.splits)
  from blank_notes_no_effect [OF blank]
  show "handleReview dec so fo p = (p, [])" and "handleSubmitReview dec so fo p = (p, [])"
    by simp_all
  from blank show "review_buttons_disabled p" by (simp add: review_buttons_disabled_def)
qed

theorem review_request_requires_notes_witness:
  "snd (handleReview reject (Inr ()) (Inr [])
         (authority_initial
            \<lparr>selectedClaim := Some \<lparr>id' = ''c1'', status = ai_verified\<rparr>,
             reviewData := authority_blank_review\<lparr>notes' := Some '' Looks fine ''\<rparr>\<rparr>))
     = [SubmitAuthorityReview
          (authority_blank_review\<lparr>claim_id := ''c1'', decision := reject,
                                  notes' := Some '' Looks fine ''\<rparr>),
        GetClaims]
   \<and> trim '' Looks fine '' = ''Looks fine''
   \<and> snd (handleSubmitReview approve (Inl \<lparr>detail = None, message = None\<rparr>) (Inr [])
         (community_initial
            \<lparr>selectedClaim := Some \<lparr>id' = ''c3'', status = authority_reviewed\<rparr>,
             reviewData := community_blank_review\<lparr>notes' := Some ''Sound method''\<rparr>\<rparr>))
     = [SubmitCommunityReview
          (community_blank_review\<lparr>claim_id := ''c3'', notes' := Some ''Sound method''\<rparr>),
        ConsoleError ''Error submitting review:'',
        Alert ''Failed to submit review'']
   \<and> snd (handleSubmitReview approve (Inr ()) (Inr [])
         (community_initial
            \<lparr>selectedClaim := Some \<lparr>id' = ''c3'', status = authority_reviewed\<rparr>,
             reviewData := community_blank_review\<lparr>notes' := Some ''   ''\<rparr>\<rparr>))
     = []
   \<and> review_buttons_disabled
         (community_initial
            \<lparr>selectedClaim := Some \<lparr>id' = ''c3'', status = authority_reviewed\<rparr>,
             reviewData := community_blank_review\<lparr>notes' := Some ''   ''\<rparr>\<rparr>)"
  using review_request_requires_notes
    [of reject "Inr ()" "Inr []"
        "authority_initial
            \<lparr>selectedClaim := Some \<lparr>id' = ''c1'', status = ai_verified\<rparr>,
             reviewData := authority_blank_review\<lparr>notes' := Some '' Looks fine ''\<rparr>\<rparr>"]
    review_request_requires_notes
    [of approve "Inl \<lparr>detail = None, message = None\<rparr>" "Inr []"
        "community_initial
            \<lparr>selectedClaim := Some \<lparr>id' = ''c3'', status = authority_reviewed\<rparr>,
             reviewData := community_blank_review\<lparr>notes' := Some ''Sound method''\<rparr>\<rparr>"]
    review_request_requires_notes
    [of approve "Inr ()" "Inr []"
        "community_initial
            \<lparr>selectedClaim := Some \<lparr>id' = ''c3'', status = authority_reviewed\<rparr>,
             reviewData := community_blank_review\<lparr>notes' := Some ''   ''\<rparr>\<rparr>"]
  by (simp add: handleReview_def handleSubmitReview_def authority_initial_def
        community_initial_def authority_blank_review_def community_blank_review_def
        notes_trimmed_truthy_def trim_def is_white_space_def fetchClaims_effects_def
        review_buttons_disabled_def review_alert_text_def)

subsection \<open>Review submission: the positives and the concerns\<close>

lemma list_update_frame:
  "i < length ps \<Longrightarrow> length (ps[i := v]) = length ps \<and> ps[i := v] ! i = v
     \<and> (\<forall>j. j \<noteq> i \<longrightarrow> ps[i := v] ! j = ps ! j)"
  by simp

text \<open>
  C9. The positives and the concerns of a review are ordered lists that only grow at the
  end: \<open>+ Add Positive Point\<close> and \<open>+ Add Concern\<close> append one empty entry after the
  existing entries, which stay as they are and in their order, and change no other field;
  editing the entry at an index gives a list of the same length that differs from the old
  one at that index only; and the request of either page carries the two lists as they
  are, with no filtering, so equal strings may occur more than once.
\<close>

theorem review_entry_lists_append_only:
  "positives (addPositivePoint rd) = Some (or_empty (positives rd) @ [[]])
   \<and> addPositivePoint rd = rd\<lparr>positives := positives (addPositivePoint rd)\<rparr>
   \<and> concerns (addConcern rd) = Some (or_empty (concerns rd) @ [[]])
   \<and> addConcern rd = rd\<lparr>concerns := concerns (addConcern rd)\<rparr>
   \<and> (\<forall>ps. positives rd = Some ps \<and> i < length ps \<longrightarrow>
         (\<exists>ps'. positive_onChange i v rd = Some (rd\<lparr>positives := Some ps'\<rparr>)
            \<and> length ps' = length ps \<and> ps' ! i = v
            \<and> (\<forall>j. j \<noteq> i \<longrightarrow> ps' ! j = ps ! j)))
   \<and> (\<forall>cs. concerns rd = Some cs \<and> i < length cs \<longrightarrow>
         (\<exists>cs'. concern_onChange i v rd = Some (rd\<lparr>concerns := Some cs'\<rparr>)
            \<and> length cs' = length cs \<and> cs' ! i = v
            \<and> (\<forall>j. j \<noteq> i \<longrightarrow> cs' ! j = cs ! j)))
   \<and> (\<forall>s. SubmitAuthorityReview s \<in> set (snd (handleReview dec so fo p)) \<longrightarrow>
         positives s = positives (reviewData p) \<and> concerns s = concerns (reviewData p))
   \<and> (\<forall>s. SubmitCommunityReview s \<in> set (snd (handleSubmitReview dec so fo p)) \<longrightarrow>
         positives s = positives (reviewData p) \<and> concerns s = concerns (reviewData p))"
proof (intro conjI allI impI)
  show "positives (addPositivePoint rd) = Some (or_empty (positives rd) @ [[]])"
    by (simp add: addPositivePoint_def)
  show "addPositivePoint rd = rd\<lparr>positives := positives (addPositivePoint rd)\<rparr>"
    by (simp add: addPositivePoint_def)
  show "concerns (addConcern rd) = Some (or_empty (concerns rd) @ [[]])"
    by (simp add: addConcern_def)
  show "addConcern rd = rd\<lparr>concerns := concerns (addConcern rd)\<rparr>"
    by (simp add: addConcern_def)
next
  fix ps assume h: "positives rd = Some ps \<and> i < length ps"
  have "positive_onChange i v rd = Some (rd\<lparr>positives := Some (ps[i := v])\<rparr>)"
    using h by (simp add: positive_onChange_def)
  then show "\<exists>ps'. positive_onChange i v rd = Some (rd\<lparr>positives := Some ps'\<rparr>)
            \<and> length ps' = length ps \<and> ps' ! i = v
            \<and> (\<forall>j. j \<noteq> i \<longrightarrow> ps' ! j = ps ! j)"
    using h list_update_frame [of i ps v] by blast
next
  fix cs assume h: "concerns rd = Some cs \<and> i < length cs"
  have "concern_onChange i v rd = Some (rd\<lparr>concerns := Some (cs[i := v])\<rparr>)"
    using h by (simp add: concern_onChange_def)
  then show "\<exists>cs'. concern_onChange i v rd = Some (rd\<lparr>concerns := Some cs'\<rparr>)
            \<and> length cs' = length cs \<and> cs' ! i = v
            \<and> (\<forall>j. j \<noteq> i \<longrightarrow> cs' ! j = cs ! j)"
    using h list_update_frame [of i cs v] by blast
next
  fix s assume "SubmitAuthorityReview s \<in> set (snd (handleReview dec so fo p))"
  from handleReview_request [OF this]
  show "positives s = positives (reviewData p)" and "concerns s = concerns (reviewData p)"
    by simp_all
next
  fix s assume "SubmitCommunityReview s \<in> set (snd (handleSubmitReview dec so fo p))"
  from handleSubmitReview_request [OF this]
  show "positives s = positives (reviewData p)" and "concerns s = concerns (reviewData p)"
    by simp_all
qed

theorem review_entry_lists_append_only_witness:
  "positives (addPositivePoint (authority_blank_review\<lparr>positives := Some [''good data'']\<rparr>))
     = Some [''good data'', []]
   \<and> positive_onChange 1 ''good data''
        (authority_blank_review\<lparr>positives := Some [''good data'', []]\<rparr>)
     = Some (authority_blank_review\<lparr>positives := Some [''good data'', ''good data'']\<rparr>)
   \<and> concern_onChange 0 ''no baseline'' (addConcern community_blank_review)
     = Some (community_blank_review\<lparr>concerns := Some [''no baseline'', []]\<rparr>)
   \<and> \<not> distinct [''good data'', ''good data'']
   \<and> snd (handleReview approve (Inr ()) (Inr [])
         (authority_initial
            \<lparr>selectedClaim := Some \<lparr>id' = ''c1'', status = ai_verified\<rparr>,
             reviewData := authority_blank_review
                \<lparr>positives := Some [''good data'', ''good data''], notes' := Some ''ok''\<rparr>\<rparr>))
     = [SubmitAuthorityReview
          (authority_blank_review
             \<lparr>claim_id := ''c1'', positives := Some [''good data'', ''good data''],
              notes' := Some ''ok''\<rparr>),
        GetClaims]
   \<and> snd (handleSubmitReview reject (Inr ()) (Inr [])
         (community_initial
            \<lparr>selectedClaim := Some \<lparr>id' = ''c3'', status = authority_reviewed\<rparr>,
             reviewData := community_blank_review
                \<lparr>concerns := Some [''no baseline'', ''no baseline''], notes' := Some ''no''\<rparr>\<rparr>))
     = [SubmitCommunityReview
          (community_blank_review
             \<lparr>claim_id := ''c3'', decision := reject,
              concerns := Some [''no baseline'', ''no baseline''], notes' := Some ''no''\<rparr>),
        GetClaims]"
  using review_entry_lists_append_only
    [of "authority_blank_review\<lparr>positives := Some [''good data'', []]\<rparr>" 1 "''good data''"
        approve "Inr ()" "Inr []"
        "authority_initial
            \<lparr>selectedClaim := Some \<lparr>id' = ''c1'', status = ai_verified\<rparr>,
             reviewData := authority_blank_review
                \<lparr>positives := Some [''good data'', ''good data''], notes' := Some ''ok''\<rparr>\<rparr>"]
    review_entry_lists_append_only
    [of "addConcern community_blank_review" 0 "''no baseline''"
        reject "Inr ()" "Inr []"
        "community_initial
            \<lparr>selectedClaim := Some \<lparr>id' = ''c3'', status = authority_reviewed\<rparr>,
             reviewData := community_blank_review
                \<lparr>concerns := Some [''no baseline'', ''no baseline''], notes' := Some ''no''\<rparr>\<rparr>"]
  by (simp add: handleReview_def handleSubmitReview_def authority_initial_def
        community_initial_def authority_blank_review_def community_blank_review_def
        notes_trimmed_truthy_def trim_def is_white_space_def fetchClaims_effects_def
        addPositivePoint_def addConcern_def positive_onChange_def concern_onChange_def
        or_empty_def)

subsection \<open>Claim timeline\<close>

lemma timeline_sorted:
  "sorted_wrt (\<lambda>a b. event_status b = completed \<longrightarrow> event_status a = completed)
     (timelineEvents cl)"
  by (cases "status cl") (simp_all add: timelineEvents_def)

lemma timeline_active:
  "length (filter (\<lambda>e. event_status e = active) (timelineEvents cl)) \<le> 1"
  by (cases "status cl") (simp_all add: timelineEvents_def)

lemma timeline_ids:
  "map event_id (timelineEvents cl)
     = [''submitted'', ''ai_analyzed'', ''authority_review'', ''community_review'']
       @ (if status cl = minted then [''minted''] else [])"
  by (simp add: timelineEvents_def)

text \<open>
  C5. For every claim status the timeline lists the stages submitted, AI analysis,
  authority review, community review (and minted, for a minted claim) in this order;
  whenever a stage is marked completed, every earlier stage is marked completed too, so
  no later stage is completed while an earlier one is pending; and at most one stage is
  marked active.
\<close>

theorem timeline_completed_prefix:
  "map event_id (timelineEvents cl)
     = [''submitted'', ''ai_analyzed'', ''authority_review'', ''community_review'']
       @ (if status cl = minted then [''minted''] else [])
   \<and> (\<forall>i j. i < j \<and> j < length (timelineEvents cl)
          \<and> event_status (timelineEvents cl ! j) = completed
        \<longrightarrow> event_status (timelineEvents cl ! i) = completed)
   \<and> (\<forall>i j. i < j \<and> j < length (timelineEvents cl)
          \<and> event_status (timelineEvents cl ! i) = pending
        \<longrightarrow> event_status (timelineEvents cl ! j) \<noteq> completed)
   \<and> length (filter (\<lambda>e. event_status e = active) (timelineEvents cl)) \<le> 1"
proof -
  have nth: "\<And>i j. i < j \<Longrightarrow> j < length (timelineEvents cl) \<Longrightarrow>
      event_status (timelineEvents cl ! j) = completed \<Longrightarrow>
      event_status (timelineEvents cl ! i) = completed"
    using timeline_sorted [of cl] by (simp add: sorted_wrt_iff_nth_less)
  have "\<forall>i j. i < j \<and> j < length (timelineEvents cl)
          \<and> event_status (timelineEvents cl ! j) = completed
        \<longrightarrow> event_status (timelineEvents cl ! i) = completed"
    using nth by blast
  moreover have "\<forall>i j. i < j \<and> j < length (timelineEvents cl)
          \<and> event_status (timelineEvents cl ! i) = pending
        \<longrightarrow> event_status (timelineEvents cl ! j) \<noteq> completed"
  proof (intro allI impI notI)
    fix i j
    assume h: "i < j \<and> j < length (timelineEvents cl)
          \<and> event_status (timelineEvents cl ! i) = pending"
      and c: "event_status (timelineEvents cl ! j) = completed"
    from nth [of i j] h c have "event_status (timelineEvents cl ! i) = completed" by blast
    with h show False by simp
  qed
  ultimately show ?thesis
    using timeline_ids [of cl] timeline_active [of cl] by blast
qed

theorem timeline_completed_prefix_witness:
  "map event_status (timelineEvents \<lparr>id' = ''c3'', status = authority_reviewed\<rparr>)
     = [completed, completed, completed, active]
   \<and> map event_status (timelineEvents \<lparr>id' = ''c9'', status = minted\<rparr>)
     = [completed, completed, completed, completed, completed]
   \<and> map event_status (timelineEvents \<lparr>id' = ''c2'', status = ai_rejected\<rparr>)
     = [completed, pending, pending, pending]"
  using timeline_completed_prefix [of "\<lparr>id' = ''c3'', status = authority_reviewed\<rparr>"]
    timeline_completed_prefix [of "\<lparr>id' = ''c9'', status = minted\<rparr>"]
    timeline_completed_prefix [of "\<lparr>id' = ''c2'', status = ai_rejected\<rparr>"]
  by (simp add: timelineEvents_def)

subsection \<open>Claim submission: validation of the carbon range\<close>

lemma newErrors_4_Nil_iff:
  "newErrors 4 fd = [] \<longleftrightarrow>
     0 < min_tonnes_co2e (carbon_impact_estimate fd)
     \<and> min_tonnes_co2e (carbon_impact_estimate fd) < max_tonnes_co2e (carbon_impact_estimate fd)
     \<and> action_start_date fd \<noteq> []"
  by (auto simp: newErrors_def error_if_def)

lemma newErrors_4_carbon_impact:
  "map_of (newErrors 4 fd) ''carbon_impact'' = None \<longleftrightarrow>
     0 < min_tonnes_co2e (carbon_impact_estimate fd)
     \<and> min_tonnes_co2e (carbon_impact_estimate fd) < max_tonnes_co2e (carbon_impact_estimate fd)"
  by (auto simp: newErrors_def error_if_def)

lemma handleSubmit_invalid:
  "newErrors 4 (formData pg) \<noteq> [] \<Longrightarrow>
     handleSubmit toISOString so uo pg = (pg\<lparr>errors := newErrors 4 (formData pg)\<rparr>, [])"
  by (simp add: handleSubmit_def validateStep_def)

text \<open>
  C1 (as amended). Step 4 of \<open>validateStep\<close> passes exactly when the claimed maximum is
  strictly greater than the claimed minimum, the minimum is greater than 0 and the action
  start date is not empty; it records no \<open>carbon_impact\<close> error exactly when
  \<open>max > min > 0\<close>. When it fails, \<open>handleSubmit\<close> returns with the validation errors
  stored in the state and without any request. (The messages are written here with a
  plain 2 in CO2.)
\<close>

theorem validateStep_accepts_strict_range:
  "(fst (validateStep 4 pg) \<longleftrightarrow>
      0 < min_tonnes_co2e (carbon_impact_estimate (formData pg))
      \<and> min_tonnes_co2e (carbon_impact_estimate (formData pg))
          < max_tonnes_co2e (carbon_impact_estimate (formData pg))
      \<and> action_start_date (formData pg) \<noteq> [])
   \<and> (map_of (errors (snd (validateStep 4 pg))) ''carbon_impact'' = None \<longleftrightarrow>
      0 < min_tonnes_co2e (carbon_impact_estimate (formData pg))
      \<and> min_tonnes_co2e (carbon_impact_estimate (formData pg))
          < max_tonnes_co2e (carbon_impact_estimate (formData pg)))
   \<and> (\<not> fst (validateStep 4 pg) \<longrightarrow>
        snd (handleSubmit toISOString so uo pg) = []
        \<and> errors (fst (handleSubmit toISOString so uo pg)) = newErrors 4 (formData pg)
        \<and> errors (fst (handleSubmit toISOString so uo pg)) \<noteq> [])"
proof (intro conjI impI)
  show "fst (validateStep 4 pg) \<longleftrightarrow>
      0 < min_tonnes_co2e (carbon_impact_estimate (formData pg))
      \<and> min_tonnes_co2e (carbon_impact_estimate (formData pg))
          < max_tonnes_co2e (carbon_impact_estimate (formData pg))
      \<and> action_start_date (formData pg) \<noteq> []"
    by (simp add: validateStep_def newErrors_4_Nil_iff)
  show "map_of (errors (snd (validateStep 4 pg))) ''carbon_impact'' = None \<longleftrightarrow>
      0 < min_tonnes_co2e (carbon_impact_estimate (formData pg))
      \<and> min_tonnes_co2e (carbon_impact_estimate (formData pg))
          < max_tonnes_co2e (carbon_impact_estimate (formData pg))"
    by (simp add: validateStep_def newErrors_4_carbon_impact)
next
  assume "\<not> fst (validateStep 4 pg)"
  then have ne: "newErrors 4 (formData pg) \<noteq> []" by (simp add: validateStep_def)
  show "snd (handleSubmit toISOString so uo pg) = []"
    and "errors (fst (handleSubmit toISOString so uo pg)) = newErrors 4 (formData pg)"
    and "errors (fst (handleSubmit toISOString so uo pg)) \<noteq> []"
    using ne by (simp_all add: handleSubmit_invalid)
qed

text \<open>
  The claim as stated accepts every range with \<open>max \<ge> min > 0\<close>. The range \<open>[5, 5]\<close>
  satisfies that and is rejected, with the message that the maximum must be greater than
  the minimum.
\<close>

theorem validateStep_equal_bounds_rejected:
  "(5::rat) \<le> 5 \<and> (0::rat) < 5
   \<and> \<not> fst (validateStep 4
        ((initial_submit_page ''2026-01-15'')
           \<lparr>formData := (initial_formData ''2026-01-15'')
              \<lparr>carbon_impact_estimate :=
                 \<lparr>min_tonnes_co2e = 5, max_tonnes_co2e = 5, estimation_methodology = None,
                  time_horizon_years = 1\<rparr>\<rparr>\<rparr>))
   \<and> errors (snd (validateStep 4
        ((initial_submit_page ''2026-01-15'')
           \<lparr>formData := (initial_formData ''2026-01-15'')
              \<lparr>carbon_impact_estimate :=
                 \<lparr>min_tonnes_co2e = 5, max_tonnes_co2e = 5, estimation_methodology = None,
                  time_horizon_years = 1\<rparr>\<rparr>\<rparr>)))
     = [(''carbon_impact'', ''Maximum CO2 impact must be greater than minimum'')]"
  by (simp add: validateStep_def newErrors_def error_if_def initial_submit_page_def
        initial_formData_def)

theorem validateStep_accepts_strict_range_witness:
  "fst (validateStep 4
        ((initial_submit_page ''2026-01-15'')
           \<lparr>formData := (initial_formData ''2026-01-15'')
              \<lparr>carbon_impact_estimate :=
                 \<lparr>min_tonnes_co2e = 10, max_tonnes_co2e = 20, estimation_methodology = None,
                  time_horizon_years = 1\<rparr>\<rparr>\<rparr>))
   \<and> \<not> fst (validateStep 4 (initial_submit_page ''2026-01-15''))
   \<and> handleSubmit Some (Inr \<lparr>id' = ''c1'', status = ai_analysis_pending\<rparr>) (Inr ())
        (initial_submit_page ''2026-01-15'')
     = ((initial_submit_page ''2026-01-15'')
          \<lparr>errors := [(''carbon_impact'', ''Maximum CO2 impact must be greater than minimum'')]\<rparr>,
        [])"
  using validateStep_accepts_strict_range
      [of "(initial_submit_page ''2026-01-15'')
           \<lparr>formData := (initial_formData ''2026-01-15'')
              \<lparr>carbon_impact_estimate :=
                 \<lparr>min_tonnes_co2e = 10, max_tonnes_co2e = 20, estimation_methodology = None,
                  time_horizon_years = 1\<rparr>\<rparr>\<rparr>" Some
          "Inr \<lparr>id' = ''c1'', status = ai_analysis_pending\<rparr>" "Inr ()"]
    validateStep_accepts_strict_range
      [of "initial_submit_page ''2026-01-15''" Some
          "Inr \<lparr>id' = ''c1'', status = ai_analysis_pending\<rparr>" "Inr ()"]
  by (simp add: validateStep_def newErrors_def error_if_def initial_submit_page_def
        initial_formData_def handleSubmit_def)

subsection \<open>Claim submission: evidence upload failures\<close>

lemma errorMessage_truthy: "errorMessage err \<noteq> []"
  by (simp add: errorMessage_def split: option.splits)

lemma handleSubmit_created:
  assumes "fst (validateStep 4 pg)"
    and "location (formData pg) \<noteq> None \<or> geometry_geojson (formData pg) \<noteq> None"
    and "submission toISOString (formData pg) = Some payload"
  shows "handleSubmit toISOString (Inr created) upload_outcome pg =
     (pg\<lparr>errors := [], isSubmitting := False, uploadingEvidence := False\<rparr>,
      PostClaim payload
      # (if evidenceFiles (formData pg) \<noteq> []
         then UploadEvidence (id' created) (evidenceFiles (formData pg))
              # (case upload_outcome of
                   Inl err \<Rightarrow> [LogError ''Error uploading evidence:'']
                 | Inr ok \<Rightarrow> [])
         else [])
      @ [Navigate (''/claim/'' @ id' created)
           ''Claim submitted successfully! AI analysis is starting...''
           (status created = ai_analysis_pending \<or> status created = ai_analysis_in_progress)])"
  using assms by (auto simp: handleSubmit_def validateStep_def)

lemma handleSubmit_creation_failed:
  assumes "fst (validateStep 4 pg)"
    and "location (formData pg) \<noteq> None \<or> geometry_geojson (formData pg) \<noteq> None"
    and "submission toISOString (formData pg) = Some payload"
  shows "handleSubmit toISOString (Inl err) upload_outcome pg =
     (pg\<lparr>errors := [(''submit'', errorMessage err)], isSubmitting := False,
         uploadingEvidence := False\<rparr>,
      [PostClaim payload, LogError ''Error submitting claim:''])"
  using assms by (auto simp: handleSubmit_def validateStep_def submit_failed_def)

lemma handleSubmit_no_navigation:
  "Navigate path msg flag \<notin> set (snd (handleSubmit toISOString (Inl err) upload_outcome pg))"
  by (auto simp: handleSubmit_def validateStep_def Let_def split: option.splits)

text \<open>
  C7. Once the form is valid, a location is set and \<open>claimsApi.submitClaim\<close> has
  succeeded, \<open>handleSubmit\<close> ends by navigating to the detail page of the created claim
  whatever the outcome of \<open>claimsApi.uploadEvidence\<close>, with no error on the form; when the
  upload throws, the error is logged between the upload and the navigation. When the
  creation of the claim fails, no navigation occurs in any case, and the form shows a
  non-empty error message under \<open>submit\<close>.
\<close>

theorem evidence_failure_keeps_submission:
  "(fst (validateStep 4 pg)
      \<and> (location (formData pg) \<noteq> None \<or> geometry_geojson (formData pg) \<noteq> None)
      \<and> submission toISOString (formData pg) = Some payload
    \<longrightarrow>
      last (snd (handleSubmit toISOString (Inr created) upload_outcome pg))
        = Navigate (''/claim/'' @ id' created)
            ''Claim submitted successfully! AI analysis is starting...''
            (status created = ai_analysis_pending \<or> status created = ai_analysis_in_progress)
      \<and> errors (fst (handleSubmit toISOString (Inr created) upload_outcome pg)) = []
      \<and> (evidenceFiles (formData pg) \<noteq> [] \<longrightarrow>
           snd (handleSubmit toISOString (Inr created) (Inl upload_err) pg)
             = [PostClaim payload,
                UploadEvidence (id' created) (evidenceFiles (formData pg)),
                LogError ''Error uploading evidence:'',
                Navigate (''/claim/'' @ id' created)
                  ''Claim submitted successfully! AI analysis is starting...''
                  (status created = ai_analysis_pending
                   \<or> status created = ai_analysis_in_progress)])
      \<and> handleSubmit toISOString (Inl err) upload_outcome pg
          = (pg\<lparr>errors := [(''submit'', errorMessage err)], isSubmitting := False,
                 uploadingEvidence := False\<rparr>,
             [PostClaim payload, LogError ''Error submitting claim:'']))
   \<and> (\<forall>path msg flag.
         Navigate path msg flag
           \<notin> set (snd (handleSubmit toISOString (Inl err) upload_outcome pg)))
   \<and> errorMessage err \<noteq> []"
proof (intro conjI impI allI)
  assume h: "fst (validateStep 4 pg)
      \<and> (location (formData pg) \<noteq> None \<or> geometry_geojson (formData pg) \<noteq> None)
      \<and> submission toISOString (formData pg) = Some payload"
  then have v: "fst (validateStep 4 pg)"
    and l: "location (formData pg) \<noteq> None \<or> geometry_geojson (formData pg) \<noteq> None"
    and s: "submission toISOString (formData pg) = Some payload"
    by simp_all
  show "last (snd (handleSubmit toISOString (Inr created) upload_outcome pg))
        = Navigate (''/claim/'' @ id' created)
            ''Claim submitted successfully! AI analysis is starting...''
            (status created = ai_analysis_pending \<or> status created = ai_analysis_in_progress)"
    by (simp add: handleSubmit_created [OF v l s])
  show "errors (fst (handleSubmit toISOString (Inr created) upload_outcome pg)) = []"
    by (simp add: handleSubmit_created [OF v l s])
  show "handleSubmit toISOString (Inl err) upload_outcome pg
          = (pg\<lparr>errors := [(''submit'', errorMessage err)], isSubmitting := False,
                 uploadingEvidence := False\<rparr>,
             [PostClaim payload, LogError ''Error submitting claim:''])"
    by (rule handleSubmit_creation_failed [OF v l s])
  assume "evidenceFiles (formData pg) \<noteq> []"
  then show "snd (handleSubmit toISOString (Inr created) (Inl upload_err) pg)
             = [PostClaim payload,
                UploadEvidence (id' created) (evidenceFiles (formData pg)),
                LogError ''Error uploading evidence:'',
                Navigate (''/claim/'' @ id' created)
                  ''Claim submitted successfully! AI analysis is starting...''
                  (status created = ai_analysis_pending
                   \<or> status created = ai_analysis_in_progress)]"
    by (simp add: handleSubmit_created [OF v l s])
next
  fix path msg flag
  show "Navigate path msg flag
           \<notin> set (snd (handleSubmit toISOString (Inl err) upload_outcome pg))"
    by (rule handleSubmit_no_navigation)
next
  show "errorMessage err \<noteq> []" by (rule errorMessage_truthy)
qed


theorem evidence_failure_keeps_submission_witness:
  "handleSubmit example_toISOString (Inr \<lparr>id' = ''c1'', status = ai_analysis_pending\<rparr>)
       (Inl \<lparr>detail = None, message = Some ''Network Error''\<rparr>) example_submit_page
     = (example_submit_page,
        [PostClaim example_payload,
         UploadEvidence ''c1'' [example_file],
         LogError ''Error uploading evidence:'',
         Navigate ''/claim/c1'' ''Claim submitted successfully! AI analysis is starting...''
           True])
   \<and> handleSubmit example_toISOString
       (Inl \<lparr>detail = Some ''Invalid geometry'', message = Some ''Request failed''\<rparr>)
       (Inr ()) example_submit_page
     = (example_submit_page\<lparr>errors := [(''submit'', ''Invalid geometry'')]\<rparr>,
        [PostClaim example_payload, LogError ''Error submitting claim:''])"
  using evidence_failure_keeps_submission
    [of example_submit_page example_toISOString example_payload
        "\<lparr>id' = ''c1'', status = ai_analysis_pending\<rparr>"
        "Inl \<lparr>detail = None, message = Some ''Network Error''\<rparr>"
        "\<lparr>detail = None, message = Some ''Network Error''\<rparr>"
        "\<lparr>detail = Some ''Invalid geometry'', message = Some ''Request failed''\<rparr>"]
  by (simp add: handleSubmit_def validateStep_def newErrors_def error_if_def submission_def
        example_submit_page_def example_formData_def example_payload_def example_file_def
        example_toISOString_def initial_formData_def errorMessage_def submit_failed_def
        trim_def is_white_space_def)

subsection \<open>Rounding to a double\<close>

lemma exponent_from_props:
  "e0 \<le> exponent_from n e0 x \<and> exponent_from n e0 x \<le> e0 + int n
   \<and> (e0 < exponent_from n e0 x \<longrightarrow> 2 powi (exponent_from n e0 x + 52) \<le> x)
   \<and> (exponent_from n e0 x < e0 + int n \<longrightarrow> x < 2 powi (exponent_from n e0 x + 53))"
proof (induction n arbitrary: e0)
  case 0
  then show ?case by simp
next
  case (Suc n)
  show ?case
  proof (cases "2 powi (e0 + 53) \<le> x")
    case True
    let ?e = "exponent_from n (e0 + 1) x"
    have eq: "exponent_from (Suc n) e0 x = ?e" using True by simp
    from Suc.IH [of "e0 + 1"]
    have a: "e0 + 1 \<le> ?e" and b: "?e \<le> e0 + 1 + int n"
      and c: "e0 + 1 < ?e \<longrightarrow> 2 powi (?e + 52) \<le> x"
      and d: "?e < e0 + 1 + int n \<longrightarrow> x < 2 powi (?e + 53)"
      by simp_all
    have "2 powi (?e + 52) \<le> x"
    proof (cases "e0 + 1 < ?e")
      case True then show ?thesis using c by simp
    next
      case False
      then have "?e = e0 + 1" using a by simp
      then have "?e + 52 = e0 + 53" by simp
      then have "(2::rat) powi (?e + 52) = 2 powi (e0 + 53)" by (rule arg_cong)
      then show ?thesis using \<open>2 powi (e0 + 53) \<le> x\<close> by (simp only:)
    qed
    then show ?thesis unfolding eq using a b d by auto
  next
    case False
    then show ?thesis by simp
  qed
qed

lemma two_powi_1024_bound:
  "overflow_threshold < 2 powi 1024"
  by (simp add: overflow_threshold_def)

lemma exponent_props:
  assumes "0 \<le> x" and "x < overflow_threshold"
  shows "min_exponent \<le> exponent x" and "exponent x \<le> max_exponent"
    and "min_exponent < exponent x \<Longrightarrow> 2 powi (exponent x + 52) \<le> x"
    and "x < 2 powi (exponent x + 53)"
proof -
  let ?n = "nat (max_exponent - min_exponent)"
  have n: "min_exponent + int ?n = max_exponent"
    by (simp add: min_exponent_def max_exponent_def)
  from exponent_from_props [of min_exponent ?n x]
  have a: "min_exponent \<le> exponent x" and b: "exponent x \<le> max_exponent"
    and c: "min_exponent < exponent x \<longrightarrow> 2 powi (exponent x + 52) \<le> x"
    and d: "exponent x < max_exponent \<longrightarrow> x < 2 powi (exponent x + 53)"
    unfolding exponent_def n by simp_all
  show "min_exponent \<le> exponent x" by (rule a)
  show "exponent x \<le> max_exponent" by (rule b)
  show "min_exponent < exponent x \<Longrightarrow> 2 powi (exponent x + 52) \<le> x" using c by simp
  show "x < 2 powi (exponent x + 53)"
  proof (cases "exponent x < max_exponent")
    case True then show ?thesis using d by simp
  next
    case False
    then have "exponent x = max_exponent" using b by simp
    then have "exponent x + 53 = 1024" by (simp add: max_exponent_def)
    then show ?thesis using assms(2) two_powi_1024_bound by simp
  qed
qed

lemma round_half_even_cases:
  "(of_int (round_half_even y) = (of_int \<lfloor>y\<rfloor> :: rat) \<and> y - of_int \<lfloor>y\<rfloor> \<le> 1 / 2)
   \<or> (of_int (round_half_even y) = (of_int \<lfloor>y\<rfloor> :: rat) + 1 \<and> 1 / 2 \<le> y - of_int \<lfloor>y\<rfloor>)"
  by (simp add: round_half_even_def Let_def)

lemma round_half_even_nearest:
  "\<bar>y - of_int (round_half_even y)\<bar> \<le> \<bar>y - of_int k\<bar>"
proof -
  let ?f = "\<lfloor>y\<rfloor>"
  define f :: rat where "f = of_int ?f"
  define kk :: rat where "kk = of_int k"
  define r :: rat where "r = of_int (round_half_even y)"
  have f1: "f \<le> y" and f2: "y < f + 1" unfolding f_def by linarith+
  have k: "k \<le> ?f \<or> ?f + 1 \<le> k" by linarith
  have kr: "kk \<le> f \<or> f + 1 \<le> kk"
  proof -
    from k show ?thesis
    proof
      assume "k \<le> ?f" then have "(of_int k :: rat) \<le> of_int ?f" by simp
      then show ?thesis by (simp add: f_def kk_def)
    next
      assume "?f + 1 \<le> k"
      then have "(of_int (?f + 1) :: rat) \<le> of_int k" by (simp only: of_int_le_iff)
      then show ?thesis by (simp add: f_def kk_def)
    qed
  qed
  have res: "(r = f \<and> y - f \<le> 1 / 2) \<or> (r = f + 1 \<and> 1 / 2 \<le> y - f)"
    unfolding r_def f_def by (rule round_half_even_cases)
  have "\<bar>y - r\<bar> \<le> \<bar>y - kk\<bar>"
  proof -
    from res show ?thesis
    proof (elim disjE conjE)
      assume a: "r = f" "y - f \<le> 1 / 2"
      from kr show ?thesis
      proof
        assume "kk \<le> f" then show ?thesis using a f1 f2 by linarith
      next
        assume "f + 1 \<le> kk" then show ?thesis using a f1 f2 by linarith
      qed
    next
      assume a: "r = f + 1" "1 / 2 \<le> y - f"
      from kr show ?thesis
      proof
        assume "kk \<le> f" then show ?thesis using a f1 f2 by linarith
      next
        assume "f + 1 \<le> kk" then show ?thesis using a f1 f2 by linarith
      qed
    qed
  qed
  then show ?thesis unfolding r_def kk_def .
qed

lemma round_half_even_bounds:
  assumes "0 \<le> y" and "y < of_int b"
  shows "0 \<le> round_half_even y" and "round_half_even y \<le> b"
proof -
  have f0: "0 \<le> \<lfloor>y\<rfloor>" using assms(1) by simp
  have fb: "\<lfloor>y\<rfloor> < b" using assms(2) by (simp add: floor_less_iff)
  show "0 \<le> round_half_even y" using f0 by (simp add: round_half_even_def Let_def)
  show "round_half_even y \<le> b" using fb by (simp add: round_half_even_def Let_def)
qed


lemma two_powi_pos: "0 < (2::rat) powi e"
  by simp

lemma two_powi_add: "(2::rat) powi (a + b) = 2 powi a * 2 powi b"
  by (simp add: power_int_add)

lemma two_powi_le: "a \<le> b \<Longrightarrow> (2::rat) powi a \<le> 2 powi b"
  by (rule power_int_increasing) simp_all

lemma two_powi_shift:
  assumes "e \<le> e'"
  shows "(2::rat) powi e' = of_int (2 ^ nat (e' - e)) * 2 powi e"
proof -
  define n where "n = nat (e' - e)"
  have e': "e' = int n + e" using assms by (simp add: n_def)
  have "(2::rat) powi (int n + e) = 2 powi int n * 2 powi e" by (rule two_powi_add)
  also have "(2::rat) powi int n = 2 ^ n" by (rule power_int_of_nat)
  finally have "(2::rat) powi e' = 2 ^ n * 2 powi e" unfolding e' .
  then show ?thesis unfolding n_def by simp
qed

lemma round_magnitude_mantissa:
  assumes "0 \<le> x" and "x < overflow_threshold"
  shows "0 \<le> round_half_even (x / 2 powi exponent x)"
    and "round_half_even (x / 2 powi exponent x) \<le> 2 ^ 53"
proof -
  let ?q = "(2::rat) powi exponent x"
  have q: "0 < ?q" by simp
  have "x < 2 powi (exponent x + 53)" using assms by (rule exponent_props(4))
  also have "\<dots> = ?q * 2 ^ 53" by (simp add: two_powi_add)
  finally have "x / ?q < 2 ^ 53" using q by (simp add: pos_divide_less_eq mult.commute)
  then have up: "x / ?q < of_int (2 ^ 53)" by simp
  have lo: "0 \<le> x / ?q" using assms(1) q by simp
  show "0 \<le> round_half_even (x / ?q)" using lo up by (rule round_half_even_bounds(1))
  show "round_half_even (x / ?q) \<le> 2 ^ 53" using lo up by (rule round_half_even_bounds(2))
qed

lemma round_magnitude_nonneg:
  assumes "0 \<le> x" and "x < overflow_threshold"
  shows "0 \<le> round_magnitude x"
  using round_magnitude_mantissa(1) [OF assms] by (simp add: round_magnitude_def)



lemma round_magnitude_nearest:
  assumes "0 \<le> x" and "x < overflow_threshold" and "d \<in> doubles"
  shows "\<bar>x - round_magnitude x\<bar> \<le> \<bar>x - d\<bar>"
proof -
  let ?e = "exponent x"
  let ?q = "(2::rat) powi ?e"
  let ?y = "x / ?q"
  let ?m = "round_half_even ?y"
  have q: "0 < ?q" by simp
  have multiple: "\<bar>x - round_magnitude x\<bar> \<le> \<bar>x - of_int k * ?q\<bar>" for k
  proof -
    have "\<bar>?y - of_int ?m\<bar> \<le> \<bar>?y - of_int k\<bar>" by (rule round_half_even_nearest)
    then have "\<bar>?y - of_int ?m\<bar> * ?q \<le> \<bar>?y - of_int k\<bar> * ?q"
      using q by (simp add: mult_right_mono)
    moreover have "\<bar>?y - of_int ?m\<bar> * ?q = \<bar>x - of_int ?m * ?q\<bar>"
    proof -
      have "\<bar>?y - of_int ?m\<bar> * ?q = \<bar>(?y - of_int ?m) * ?q\<bar>"
        using q by (simp add: abs_mult)
      also have "(?y - of_int ?m) * ?q = x - of_int ?m * ?q"
        using q by (simp add: field_simps)
      finally show ?thesis .
    qed
    moreover have "\<bar>?y - of_int k\<bar> * ?q = \<bar>x - of_int k * ?q\<bar>"
    proof -
      have "\<bar>?y - of_int k\<bar> * ?q = \<bar>(?y - of_int k) * ?q\<bar>"
        using q by (simp add: abs_mult)
      also have "(?y - of_int k) * ?q = x - of_int k * ?q"
        using q by (simp add: field_simps)
      finally show ?thesis .
    qed
    ultimately show ?thesis by (simp add: round_magnitude_def)
  qed
  from assms(3) obtain m e where d: "d = of_int m * 2 powi e"
    and m: "\<bar>m\<bar> < 2 ^ 53" and e: "min_exponent \<le> e" by blast
  show ?thesis
  proof (cases "?e \<le> e")
    case True
    have "d = of_int m * (of_int (2 ^ nat (e - ?e)) * ?q)"
      unfolding d using two_powi_shift [OF True] by simp
    then have "d = of_int (m * 2 ^ nat (e - ?e)) * ?q" by simp
    then show ?thesis using multiple [of "m * 2 ^ nat (e - ?e)"] by simp
  next
    case False
    then have lt: "e + 1 \<le> ?e" by simp
    then have "min_exponent < ?e" using e by simp
    then have low: "2 powi (?e + 52) \<le> x" using exponent_props(3) [OF assms(1,2)] by simp
    have "(of_int m :: rat) < 2 ^ 53"
    proof -
      have "m < 2 ^ 53" using m by simp
      then have "(of_int m :: rat) < of_int (2 ^ 53)" by (simp only: of_int_less_iff)
      then show ?thesis by simp
    qed
    then have "d < 2 ^ 53 * 2 powi e" unfolding d by (simp add: mult_strict_right_mono)
    also have "\<dots> = 2 powi (e + 53)" by (simp add: two_powi_add)
    also have "\<dots> \<le> 2 powi (?e + 52)" using lt by (intro two_powi_le) simp
    finally have dl: "d < 2 powi (?e + 52)" .
    have "2 powi (?e + 52) = of_int (2 ^ 52) * ?q" by (simp add: two_powi_add)
    then have "\<bar>x - round_magnitude x\<bar> \<le> \<bar>x - 2 powi (?e + 52)\<bar>"
      using multiple [of "2 ^ 52"] by simp
    then show ?thesis using dl low by linarith
  qed
qed

lemma double_below_threshold:
  assumes "d \<in> doubles"
  shows "d < overflow_threshold" and "d < 2 powi 1024"
proof -
  from assms obtain m e where d: "d = of_int m * 2 powi e"
    and m: "\<bar>m\<bar> < 2 ^ 53" and e: "e \<le> max_exponent" by blast
  have m1: "m \<le> 2 ^ 53 - 1" using m by simp
  have "(of_int m :: rat) \<le> of_int (2 ^ 53 - 1)" using m1 by (simp only: of_int_le_iff)
  then have m2: "(of_int m :: rat) \<le> 2 ^ 53 - 1" by simp
  have p: "(2::rat) powi e \<le> 2 powi 971"
    using e by (intro two_powi_le) (simp add: max_exponent_def)
  have "d \<le> (2 ^ 53 - 1) * 2 powi e" unfolding d using m2 by (simp add: mult_right_mono)
  also have "\<dots> \<le> (2 ^ 53 - 1) * 2 powi 971" using p by (simp add: mult_left_mono)
  finally have le: "d \<le> (2 ^ 53 - 1) * 2 powi 971" .
  have "(2 ^ 53 - 1) * (2::rat) powi 971 < overflow_threshold"
    by (simp add: overflow_threshold_def)
  with le show "d < overflow_threshold" by simp
  then show "d < 2 powi 1024" using two_powi_1024_bound by simp
qed

lemma round_magnitude_exact:
  assumes "d \<in> doubles" and "0 \<le> d"
  shows "round_magnitude d = d"
proof -
  have "\<bar>d - round_magnitude d\<bar> \<le> \<bar>d - d\<bar>"
    using assms(2) double_below_threshold(1) [OF assms(1)] assms(1)
    by (rule round_magnitude_nearest)
  then show ?thesis by simp
qed




lemma round_to_double_nonneg:
  assumes "0 \<le> x" and "x < overflow_threshold"
  shows "round_to_double x = Finite (round_magnitude x)"
proof (cases "x = 0")
  case True
  have "\<bar>(0::rat) - round_magnitude 0\<bar> \<le> \<bar>0 - of_int 0 * 2 powi 0\<bar>"
    by (rule round_magnitude_nearest)
       (auto simp: overflow_threshold_def min_exponent_def max_exponent_def)
  then have "round_magnitude 0 = 0" by simp
  then show ?thesis using True by (simp add: round_to_double_def overflow_threshold_def)
next
  case False
  then have "0 < x" using assms(1) by simp
  moreover have "0 < overflow_threshold" by (simp add: overflow_threshold_def)
  ultimately show ?thesis using assms(2) by (simp add: round_to_double_def)
qed


lemma doubles_is_double:
  assumes "d \<in> doubles" and "0 \<le> d"
  shows "is_double d"
  using round_to_double_nonneg [OF assms(2) double_below_threshold(1) [OF assms(1)]]
    round_magnitude_exact [OF assms]
  by (simp add: is_double_def)


lemma quantum_double: "2 powi min_exponent \<in> doubles"
proof -
  have "(2::rat) powi min_exponent = of_int 1 * 2 powi min_exponent" by simp
  moreover have "\<bar>1::int\<bar> < 2 ^ 53" by simp
  moreover have "min_exponent \<le> max_exponent" by (simp add: min_exponent_def max_exponent_def)
  ultimately show ?thesis by blast
qed



subsection \<open>Minting: the amount sent\<close>




lemma exponent_small:
  assumes "x < 2 powi (min_exponent + 53)"
  shows "exponent x = min_exponent"
proof -
  obtain n where n: "nat (max_exponent - min_exponent) = Suc n"
    by (cases "nat (max_exponent - min_exponent)")
       (simp_all add: min_exponent_def max_exponent_def)
  show ?thesis unfolding exponent_def n using assms by simp
qed





text \<open>
  The two conditions on \<open>min + max\<close> are needed. With both bounds the largest double the
  sum overflows, and the amount sent is \<open>Infinity\<close>; with the range from 0 to the least
  positive double the half of the sum is a tie between 0 and that double, and the amount
  sent is 0.
\<close>

lemma mint_amount_overflows:
  "is_double ((2 ^ 53 - 1) * 2 ^ 971)
   \<and> mint_amount
        \<lparr>verified_impact =
           Some \<lparr>VerifiedImpact.min_tonnes_co2e = Finite ((2 ^ 53 - 1) * 2 ^ 971),
                  max_tonnes_co2e = Finite ((2 ^ 53 - 1) * 2 ^ 971),
                  point_estimate_tonnes_co2e = None\<rparr>\<rparr> = PosInf"
proof -
  have "(2 ^ 53 - 1) * (2::rat) ^ 971 = of_int (2 ^ 53 - 1) * 2 powi 971" by simp
  moreover have "\<bar>2 ^ 53 - 1 :: int\<bar> < 2 ^ 53" by simp
  moreover have "min_exponent \<le> 971" "971 \<le> max_exponent"
    by (simp_all add: min_exponent_def max_exponent_def)
  ultimately have "(2 ^ 53 - 1) * (2::rat) ^ 971 \<in> doubles" by blast
  then have "is_double ((2 ^ 53 - 1) * 2 ^ 971)" by (rule doubles_is_double) simp
  moreover have "overflow_threshold \<le> (2 ^ 53 - 1) * 2 ^ 971 + (2 ^ 53 - 1) * 2 ^ 971"
    by (simp add: overflow_threshold_def)
  ultimately show ?thesis by (simp add: mint_amount_def round_to_double_def)
qed

lemma mint_amount_underflows:
  "is_double (2 powi min_exponent)
   \<and> mint_amount
        \<lparr>verified_impact =
           Some \<lparr>VerifiedImpact.min_tonnes_co2e = Finite 0,
                  max_tonnes_co2e = Finite (2 powi min_exponent),
                  point_estimate_tonnes_co2e = None\<rparr>\<rparr> = Finite 0"
proof -
  let ?q = "(2::rat) powi min_exponent"
  have q: "0 < ?q" by simp
  have d: "is_double ?q" using quantum_double by (rule doubles_is_double) simp
  then have sum: "js_add (Finite 0) (Finite ?q) = Finite ?q" by (simp add: is_double_def)
  have "?q / 2 < ?q" using q by simp
  also have "?q \<le> 2 powi (min_exponent + 53)" by (intro two_powi_le) simp
  finally have e: "exponent (?q / 2) = min_exponent" by (rule exponent_small)
  have "?q / 2 / ?q = 1 / 2" using q by simp
  moreover have "\<lfloor>1 / 2 :: rat\<rfloor> = 0" by (rule floor_unique) simp_all
  ultimately have "round_magnitude (?q / 2) = 0"
    by (simp add: round_magnitude_def e round_half_even_def Let_def)
  moreover have "?q / 2 < overflow_threshold"
  proof -
    have "?q \<le> 2 powi 0" by (intro two_powi_le) (simp add: min_exponent_def)
    then have "?q / 2 < 1" by simp
    also have "1 < overflow_threshold" by (simp add: overflow_threshold_def)
    finally show ?thesis .
  qed
  ultimately have "js_div_2 (Finite ?q) = Finite 0"
    using round_to_double_nonneg [of "?q / 2"] q by simp
  then show ?thesis using d sum by (simp add: mint_amount_def)
qed

subsection \<open>Evidence uploader\<close>

lemma slice0_prefix: "prefix (slice0 xs e) xs"
  by (simp add: slice0_def take_is_prefix)

lemma slice0_length: "0 \<le> e \<Longrightarrow> int (length (slice0 xs e)) \<le> e"
  by (simp add: slice0_def)

lemma map_file_enumerate:
  "map file' (map (\<lambda>(k, f). \<lparr>evidence_id = rid k, file' = f, preview = pv f,
                                kind = getFileType f, uploaded = False\<rparr>) (enumerate n xs)) = xs"
  by (induction xs arbitrary: n) simp_all

lemma handleFiles_appends:
  "\<exists>added. files (handleFiles maxFiles reader rid newFiles u) = files u @ added
     \<and> (added = [] \<or> map file' added = slice0 newFiles (maxFiles - int (length (files u))))
     \<and> (handleFiles maxFiles reader rid newFiles u = u
        \<or> reported (handleFiles maxFiles reader rid newFiles u)
             = reported u @ [map file' (files u @ added)])"
proof (cases "\<exists>f \<in> set (slice0 newFiles (maxFiles - int (length (files u)))).
                createPreview reader f = None")
  case True
  then have "handleFiles maxFiles reader rid newFiles u = u"
    by (simp add: handleFiles_def Let_def)
  then show ?thesis by simp
next
  case False
  let ?added = "map (\<lambda>(k, f). \<lparr>evidence_id = rid k, file' = f,
                                  preview = the (createPreview reader f),
                                  kind = getFileType f, uploaded = False\<rparr>)
                   (enumerate 0 (slice0 newFiles (maxFiles - int (length (files u)))))"
  have eq: "handleFiles maxFiles reader rid newFiles u
        = \<lparr>files = files u @ ?added, reported = reported u @ [map file' (files u @ ?added)]\<rparr>"
    unfolding handleFiles_def Let_def if_not_P [OF False] by simp
  have "map file' ?added = slice0 newFiles (maxFiles - int (length (files u)))"
    by (rule map_file_enumerate)
  then show ?thesis using eq by auto
qed

lemma handleFiles_bound:
  assumes "int (length (files u)) \<le> maxFiles"
  shows "int (length (files (handleFiles maxFiles reader rid newFiles u))) \<le> maxFiles"
proof -
  from handleFiles_appends [of maxFiles reader rid newFiles u]
  obtain added where a: "files (handleFiles maxFiles reader rid newFiles u) = files u @ added"
    and b: "added = [] \<or> map file' added = slice0 newFiles (maxFiles - int (length (files u)))"
    by blast
  have "int (length added) \<le> maxFiles - int (length (files u))"
  proof (cases "added = []")
    case True then show ?thesis using assms by simp
  next
    case False
    with b have "length added = length (slice0 newFiles (maxFiles - int (length (files u))))"
      by (metis length_map)
    then show ?thesis using slice0_length [of "maxFiles - int (length (files u))" newFiles] assms
      by simp
  qed
  then show ?thesis using a by simp
qed

lemma uploader_step_bound:
  assumes "int (length (files u)) \<le> maxFiles"
  shows "int (length (files (uploader_step maxFiles u e))) \<le> maxFiles"
proof (cases e)
  case (HandleFiles reader rid newFiles)
  then show ?thesis using handleFiles_bound [OF assms] by simp
next
  case (UploadTimer i)
  then show ?thesis using assms by (simp add: mark_uploaded_def)
next
  case (RemoveFile i)
  have "int (length (filter (\<lambda>f. evidence_id f \<noteq> i) (files u))) \<le> int (length (files u))"
    by simp
  then have "int (length (filter (\<lambda>f. evidence_id f \<noteq> i) (files u))) \<le> maxFiles"
    using assms by linarith
  then show ?thesis using RemoveFile by (simp add: removeFile_def Let_def)
qed

lemma uploader_run_snoc:
  "uploader_run maxFiles (events @ [e]) = uploader_step maxFiles (uploader_run maxFiles events) e"
  by (simp add: uploader_run_def)

lemma uploader_run_bound:
  assumes "0 \<le> maxFiles"
  shows "int (length (files (uploader_run maxFiles events))) \<le> maxFiles"
proof (induction events rule: rev_induct)
  case Nil
  then show ?case using assms by (simp add: uploader_run_def initial_uploader_def)
next
  case (snoc e events)
  then show ?case by (simp add: uploader_run_snoc uploader_step_bound)
qed

lemma map_file_mark:
  "map file' (files (mark_uploaded i u)) = map file' (files u)"
  by (simp add: mark_uploaded_def comp_def if_distrib [of file'] cong: if_cong)

lemma map_id_mark:
  "map evidence_id (files (mark_uploaded i u)) = map evidence_id (files u)"
  by (simp add: mark_uploaded_def comp_def if_distrib [of evidence_id] cong: if_cong)

lemma uploader_step_sync:
  assumes "map file' (files u) = (if reported u = [] then [] else last (reported u))"
  shows "map file' (files (uploader_step maxFiles u e))
           = (if reported (uploader_step maxFiles u e) = [] then []
              else last (reported (uploader_step maxFiles u e)))"
proof (cases e)
  case (HandleFiles reader rid newFiles)
  from handleFiles_appends [of maxFiles reader rid newFiles u]
  obtain added where a: "files (handleFiles maxFiles reader rid newFiles u) = files u @ added"
    and c: "handleFiles maxFiles reader rid newFiles u = u
        \<or> reported (handleFiles maxFiles reader rid newFiles u)
             = reported u @ [map file' (files u @ added)]"
    by blast
  from c show ?thesis
  proof
    assume "handleFiles maxFiles reader rid newFiles u = u"
    then show ?thesis using assms HandleFiles by simp
  next
    assume "reported (handleFiles maxFiles reader rid newFiles u)
             = reported u @ [map file' (files u @ added)]"
    then show ?thesis using a HandleFiles by simp
  qed
next
  case (UploadTimer i)
  have "reported (mark_uploaded i u) = reported u" by (simp add: mark_uploaded_def)
  then show ?thesis using assms UploadTimer map_file_mark [of i u] by simp
next
  case (RemoveFile i)
  then show ?thesis by (simp add: removeFile_def Let_def)
qed

lemma uploader_run_sync:
  "map file' (files (uploader_run maxFiles events))
     = (if reported (uploader_run maxFiles events) = [] then []
        else last (reported (uploader_run maxFiles events)))"
proof (induction events rule: rev_induct)
  case Nil
  then show ?case by (simp add: uploader_run_def initial_uploader_def)
next
  case (snoc e events)
  then show ?case unfolding uploader_run_snoc by (rule uploader_step_sync)
qed

text \<open>
  C10. With a limit \<open>maxFiles\<close> that is not negative (10 by default), the uploader holds
  at most \<open>maxFiles\<close> files after any history of \<open>handleFiles\<close> calls, upload timers
  and \<open>removeFile\<close> calls from the empty list. \<open>handleFiles\<close> keeps the files it has,
  in place and in order, and appends a prefix of the batch of at most \<open>maxFiles\<close> minus
  the current count entries; \<open>removeFile\<close> leaves a subsequence of the list; the timers
  change neither the \<open>File\<close> objects nor the identifiers. Each call of \<open>onFilesChange\<close>
  passes the \<open>File\<close> objects of the list just stored, in order, so the last argument it
  was called with is always the current list (and the list is empty when it was never
  called).
\<close>

theorem uploader_never_exceeds_maxFiles:
  "(0 \<le> maxFiles \<longrightarrow> int (length (files (uploader_run maxFiles events))) \<le> maxFiles)
   \<and> map file' (files (uploader_run maxFiles events))
       = (if reported (uploader_run maxFiles events) = [] then []
          else last (reported (uploader_run maxFiles events)))
   \<and> (int (length (files u)) \<le> maxFiles \<longrightarrow>
        (\<exists>added. files (handleFiles maxFiles reader random_id newFiles u) = files u @ added
           \<and> prefix (map file' added) newFiles
           \<and> int (length added) \<le> maxFiles - int (length (files u))))
   \<and> (handleFiles maxFiles reader random_id newFiles u = u
        \<or> reported (handleFiles maxFiles reader random_id newFiles u)
            = reported u @ [map file' (files (handleFiles maxFiles reader random_id newFiles u))])
   \<and> subseq (files (removeFile ident u)) (files u)
   \<and> reported (removeFile ident u) = reported u @ [map file' (files (removeFile ident u))]
   \<and> map file' (files (mark_uploaded ident u)) = map file' (files u)
   \<and> map evidence_id (files (mark_uploaded ident u)) = map evidence_id (files u)
   \<and> reported (mark_uploaded ident u) = reported u"
proof (intro conjI impI)
  assume "0 \<le> maxFiles"
  then show "int (length (files (uploader_run maxFiles events))) \<le> maxFiles"
    by (rule uploader_run_bound)
next
  show "map file' (files (uploader_run maxFiles events))
       = (if reported (uploader_run maxFiles events) = [] then []
          else last (reported (uploader_run maxFiles events)))"
    by (rule uploader_run_sync)
next
  assume le: "int (length (files u)) \<le> maxFiles"
  from handleFiles_appends [of maxFiles reader random_id newFiles u]
  obtain added where a: "files (handleFiles maxFiles reader random_id newFiles u) = files u @ added"
    and b: "added = [] \<or> map file' added = slice0 newFiles (maxFiles - int (length (files u)))"
    by blast
  have p: "prefix (map file' added) newFiles"
    using b slice0_prefix [of newFiles "maxFiles - int (length (files u))"] by auto
  have "int (length (files u @ added)) \<le> maxFiles"
    using handleFiles_bound [OF le, of reader random_id newFiles] a by simp
  then have "int (length added) \<le> maxFiles - int (length (files u))" by simp
  with a p show "\<exists>added. files (handleFiles maxFiles reader random_id newFiles u) = files u @ added
           \<and> prefix (map file' added) newFiles
           \<and> int (length added) \<le> maxFiles - int (length (files u))"
    by blast
next
  from handleFiles_appends [of maxFiles reader random_id newFiles u]
  show "handleFiles maxFiles reader random_id newFiles u = u
        \<or> reported (handleFiles maxFiles reader random_id newFiles u)
            = reported u @ [map file' (files (handleFiles maxFiles reader random_id newFiles u))]"
    by auto
next
  show "subseq (files (removeFile ident u)) (files u)"
    by (simp add: removeFile_def Let_def)
  show "reported (removeFile ident u) = reported u @ [map file' (files (removeFile ident u))]"
    by (simp add: removeFile_def Let_def)
  show "map file' (files (mark_uploaded ident u)) = map file' (files u)"
    by (rule map_file_mark)
  show "map evidence_id (files (mark_uploaded ident u)) = map evidence_id (files u)"
    by (rule map_id_mark)
  show "reported (mark_uploaded ident u) = reported u"
    by (simp add: mark_uploaded_def)
qed





theorem uploader_never_exceeds_maxFiles_witness:
  "(0::int) \<le> 2
   \<and> map file' (files (uploader_run 2
        [HandleFiles example_reader example_random_id [example_file, example_report, example_video],
         UploadTimer ''k3j9x0q2a'',
         RemoveFile ''k3j9x0q2a'',
         HandleFiles example_reader example_random_id [example_video, example_file]]))
      = [example_report, example_video]
   \<and> reported (uploader_run 2
        [HandleFiles example_reader example_random_id [example_file, example_report, example_video],
         UploadTimer ''k3j9x0q2a'',
         RemoveFile ''k3j9x0q2a'',
         HandleFiles example_reader example_random_id [example_video, example_file]])
      = [[example_file, example_report], [example_report], [example_report, example_video]]"
  using uploader_never_exceeds_maxFiles
    [of 2 "[HandleFiles example_reader example_random_id [example_file, example_report, example_video],
         UploadTimer ''k3j9x0q2a'',
         RemoveFile ''k3j9x0q2a'',
         HandleFiles example_reader example_random_id [example_video, example_file]]"
        initial_uploader example_reader example_random_id "[example_file]" "''k3j9x0q2a''"]
  by (simp add: uploader_run_def initial_uploader_def handleFiles_def slice0_def Let_def
        createPreview_def example_reader_def example_random_id_def removeFile_def
        mark_uploaded_def getFileType_def example_file_def example_report_def
        example_video_def)

subsection \<open>Status polling\<close>

lemma status_poll_effect_settles:
  "status_poll_effect ident (status_poll_effect ident pg) = status_poll_effect ident pg"
  by (simp add: status_poll_effect_def split: option.splits)

lemma verified_expiry_keeps_polling:
  "page_step (Some ''c1'') (InitialExpiry (Inr (example_response verified)))
     \<lparr>claimData = Some (example_response verified), aiAnalysisInProgress = True,
      pollInterval_initial = True, pollInterval_status = False\<rparr>
   = \<lparr>claimData = Some (example_response verified), aiAnalysisInProgress = True,
      pollInterval_initial = True, pollInterval_status = False\<rparr>"
  by (simp add: rerender_def initial_poll_tick_def no_id_def is_final_status_def
        example_response_def status_deps_def)

lemma verified_run_keeps_polling:
  "page_run (Some ''c1'') (replicate n (InitialExpiry (Inr (example_response verified))))
     \<lparr>claimData = Some (example_response verified), aiAnalysisInProgress = True,
      pollInterval_initial = True, pollInterval_status = False\<rparr>
   = (\<lparr>claimData = Some (example_response verified), aiAnalysisInProgress = True,
       pollInterval_initial = True, pollInterval_status = False\<rparr>, n)"
  by (induction n) (simp_all add: verified_expiry_keeps_polling no_id_def del: page_step.simps)

text \<open>
  C8. Polling is to go on only while the fetched status is \<open>ai_analysis_pending\<close> or
  \<open>ai_analysis_in_progress\<close>, and to stop for good on an error. The page does neither.
  Mounted with \<open>aiAnalysisPending\<close> for a claim whose analysis is in progress, it has both
  intervals set; once the fetched status is \<open>verified\<close>, the callback of the first
  interval finds it in neither of its lists: the interval stays set, every further expiry
  sends a request (\<open>Suc n\<close> requests for \<open>Suc n\<close> expiries, for every \<open>n\<close>), and the
  spinner screen stays up. And after a fetch error of the second interval, the render
  that follows sets a new interval, so that the next expiry polls again.
\<close>

theorem polling_goes_on_for_verified_claim:
  "mount (Some ''c1'') True (Inr (example_response ai_analysis_in_progress))
     = \<lparr>claimData = Some (example_response ai_analysis_in_progress),
        aiAnalysisInProgress = True, pollInterval_initial = True,
        pollInterval_status = True\<rparr>
   \<and> page_run (Some ''c1'')
        (replicate (Suc n) (InitialExpiry (Inr (example_response verified))))
        (mount (Some ''c1'') True (Inr (example_response ai_analysis_in_progress)))
     = (\<lparr>claimData = Some (example_response verified), aiAnalysisInProgress = True,
         pollInterval_initial = True, pollInterval_status = False\<rparr>, Suc n)
   \<and> analysis_screen_shown
        \<lparr>claimData = Some (example_response verified), aiAnalysisInProgress = True,
         pollInterval_initial = True, pollInterval_status = False\<rparr>
   \<and> verified \<noteq> ai_analysis_pending \<and> verified \<noteq> ai_analysis_in_progress
   \<and> page_run (Some ''c1'')
        [StatusExpiry (Inl \<lparr>detail = None, message = Some ''Network Error''\<rparr>),
         StatusExpiry (Inl \<lparr>detail = None, message = Some ''Network Error''\<rparr>)]
        (mount (Some ''c1'') False (Inr (example_response ai_analysis_in_progress)))
     = (\<lparr>claimData = Some (example_response ai_analysis_in_progress),
         aiAnalysisInProgress = True, pollInterval_initial = False,
         pollInterval_status = True\<rparr>, 2)"
proof -
  have m: "mount (Some ''c1'') True (Inr (example_response ai_analysis_in_progress))
     = \<lparr>claimData = Some (example_response ai_analysis_in_progress),
        aiAnalysisInProgress = True, pollInterval_initial = True,
        pollInterval_status = True\<rparr>"
    by (simp add: mount_def rerender_def fetchClaim_def status_poll_effect_def
          start_initial_polling_def initial_detail_page_def no_id_def status_deps_def
          example_response_def Let_def)
  have first: "page_step (Some ''c1'') (InitialExpiry (Inr (example_response verified)))
     \<lparr>claimData = Some (example_response ai_analysis_in_progress),
        aiAnalysisInProgress = True, pollInterval_initial = True,
        pollInterval_status = True\<rparr>
     = \<lparr>claimData = Some (example_response verified), aiAnalysisInProgress = True,
        pollInterval_initial = True, pollInterval_status = False\<rparr>"
    by (simp add: rerender_def initial_poll_tick_def status_poll_effect_def no_id_def
          is_final_status_def example_response_def status_deps_def Let_def)
  have run: "page_run (Some ''c1'')
        (replicate (Suc n) (InitialExpiry (Inr (example_response verified))))
        (mount (Some ''c1'') True (Inr (example_response ai_analysis_in_progress)))
     = (\<lparr>claimData = Some (example_response verified), aiAnalysisInProgress = True,
         pollInterval_initial = True, pollInterval_status = False\<rparr>, Suc n)"
    unfolding m by (simp add: first verified_run_keeps_polling no_id_def del: page_step.simps)
  have screen: "analysis_screen_shown
        \<lparr>claimData = Some (example_response verified), aiAnalysisInProgress = True,
         pollInterval_initial = True, pollInterval_status = False\<rparr>"
    by (simp add: analysis_screen_shown_def example_response_def)
  have err: "page_run (Some ''c1'')
        [StatusExpiry (Inl \<lparr>detail = None, message = Some ''Network Error''\<rparr>),
         StatusExpiry (Inl \<lparr>detail = None, message = Some ''Network Error''\<rparr>)]
        (mount (Some ''c1'') False (Inr (example_response ai_analysis_in_progress)))
     = (\<lparr>claimData = Some (example_response ai_analysis_in_progress),
         aiAnalysisInProgress = True, pollInterval_initial = False,
         pollInterval_status = True\<rparr>, 2)"
    by (simp add: mount_def rerender_def fetchClaim_def status_poll_effect_def
          status_poll_tick_def start_initial_polling_def initial_detail_page_def no_id_def
          status_deps_def example_response_def Let_def)
  show ?thesis using m run screen err by simp
qed

end
